theory Spec2Isabelle
  imports Complex_Main
begin

section \<open>GLSL values and built-in functions\<close>

text \<open>
  The three fragment shaders of the repository (\<open>juliaFractal\<close>, \<open>imageFractal\<close> and the
  shader of \<open>JuliaFieldFractal\<close>) compute on \<open>highp float\<close> values. The embedding reads
  every \<open>float\<close> as a real number and every arithmetic operation as the exact operation
  on the reals; every decimal literal of the source denotes the decimal it spells. The
  results below are therefore results about the exact-arithmetic reading of the shaders,
  with two additions made where the difference matters: the coordinate mapping is given
  in 32-bit floating point as well, and \<open>atan2\<close> is given a second time with \<open>\<pi>\<close> for its
  15-digit literal.

  The built-in functions are not part of the repository. They are written out here as the
  GLSL ES 1.00 specification defines them (section 8). Where GLSL leaves a result
  undefined, HOL's total functions return some value; these places are listed with each
  function.
\<close>

type_synonym vec2 = "real \<times> real"
type_synonym vec3 = "real \<times> real \<times> real"
type_synonym vec4 = "real \<times> real \<times> real \<times> real"

text \<open>\<open>texture2D(image, uv).rgb\<close>: a texture is a function from coordinates to a colour.\<close>
type_synonym sampler2D = "vec2 \<Rightarrow> vec3"

definition dot :: "vec2 \<Rightarrow> vec2 \<Rightarrow> real" where
  "dot a b = fst a * fst b + snd a * snd b"

text \<open>\<open>length(v)\<close> of GLSL; the name \<open>length\<close> belongs to lists in HOL.\<close>
definition length_v :: "vec2 \<Rightarrow> real" where
  "length_v v = sqrt (dot v v)"

text \<open>\<open>mix(x, y, a) = x * (1 - a) + y * a\<close>.\<close>
definition mix :: "real \<Rightarrow> real \<Rightarrow> real \<Rightarrow> real" where
  "mix x y a = x * (1 - a) + y * a"

text \<open>\<open>clamp(x, minVal, maxVal) = min(max(x, minVal), maxVal)\<close>.\<close>
definition clamp :: "real \<Rightarrow> real \<Rightarrow> real \<Rightarrow> real" where
  "clamp x lo hi = min (max x lo) hi"

text \<open>\<open>fract(x) = x - floor(x)\<close>.\<close>
definition fract :: "real \<Rightarrow> real" where
  "fract x = x - of_int \<lfloor>x\<rfloor>"

text \<open>\<open>mod(x, y) = x - y * floor(x / y)\<close>; the name \<open>mod\<close> is HOL's integer remainder.\<close>
definition mod_f :: "real \<Rightarrow> real \<Rightarrow> real" where
  "mod_f x y = x - y * of_int \<lfloor>x / y\<rfloor>"

text \<open>
  \<open>pow(x, y)\<close>: GLSL leaves it undefined for \<open>x < 0\<close> and for \<open>x = 0\<close> with \<open>y \<le> 0\<close>.
  The shaders only call it on \<open>dot(z, z) \<ge> 0\<close>. HOL's \<open>powr\<close> is \<open>0\<close> at base \<open>0\<close>.
\<close>
definition pow :: "real \<Rightarrow> real \<Rightarrow> real" where
  "pow x y = x powr y"

text \<open>
  The two-argument \<open>atan(y, x)\<close> of GLSL: "an angle whose tangent is \<open>y/x\<close>; the signs of
  \<open>x\<close> and \<open>y\<close> are used to determine what quadrant the angle is in; the range of values
  returned is \<open>[-\<pi>, \<pi>]\<close>; results are undefined if \<open>x\<close> and \<open>y\<close> are both \<open>0\<close>". The model
  returns \<open>0\<close> at the origin and \<open>\<pi>\<close> (not \<open>-\<pi>\<close>) on the negative real axis.
\<close>
definition atan :: "real \<Rightarrow> real \<Rightarrow> real" where
  "atan y x =
     (if 0 < x then arctan (y / x)
      else if x < 0 then (if 0 \<le> y then arctan (y / x) + pi else arctan (y / x) - pi)
      else if 0 < y then pi / 2
      else if y < 0 then - (pi / 2)
      else 0)"

text \<open>
  \<open>log(x)\<close> is the natural logarithm, undefined in GLSL for \<open>x \<le> 0\<close>. It is modelled by
  HOL's \<open>ln\<close>, which is total (\<open>ln 0 = 0\<close>); the arguments that reach it are recorded
  separately by \<open>smooth_log_args\<close> below.
\<close>

subsection \<open>Componentwise operations on colours\<close>

definition add3 :: "vec3 \<Rightarrow> vec3 \<Rightarrow> vec3" where
  "add3 a b = (case a of (a1, a2, a3) \<Rightarrow> case b of (b1, b2, b3) \<Rightarrow> (a1 + b1, a2 + b2, a3 + b3))"

definition scale3 :: "real \<Rightarrow> vec3 \<Rightarrow> vec3" where
  "scale3 k a = (case a of (a1, a2, a3) \<Rightarrow> (k * a1, k * a2, k * a3))"

text \<open>\<open>mix(x, y, a)\<close> on \<open>vec3\<close> with a scalar weight.\<close>
definition mix3 :: "vec3 \<Rightarrow> vec3 \<Rightarrow> real \<Rightarrow> vec3" where
  "mix3 a b t = (case a of (a1, a2, a3) \<Rightarrow> case b of (b1, b2, b3) \<Rightarrow>
     (mix a1 b1 t, mix a2 b2 t, mix a3 b3 t))"

text \<open>\<open>v.rgb\<close> and the constructor \<open>vec4(rgb, a)\<close>.\<close>
definition rgb_of :: "vec4 \<Rightarrow> vec3" where
  "rgb_of v = (case v of (r, g, b, a) \<Rightarrow> (r, g, b))"

definition alpha_of :: "vec4 \<Rightarrow> real" where
  "alpha_of v = (case v of (r, g, b, a) \<Rightarrow> a)"

definition vec4_of :: "vec3 \<Rightarrow> real \<Rightarrow> vec4" where
  "vec4_of v a = (case v of (r, g, b) \<Rightarrow> (r, g, b, a))"

text \<open>\<open>s * v\<close> for a scalar and a \<open>vec4\<close>, and the componentwise product \<open>v * w\<close>.\<close>
definition scale4 :: "real \<Rightarrow> vec4 \<Rightarrow> vec4" where
  "scale4 k v = (case v of (r, g, b, a) \<Rightarrow> (k * r, k * g, k * b, k * a))"

definition mul4 :: "vec4 \<Rightarrow> vec4 \<Rightarrow> vec4" where
  "mul4 v w = (case v of (r, g, b, a) \<Rightarrow> case w of (r', g', b', a') \<Rightarrow>
     (r * r', g * g', b * b', a * a'))"

section \<open>Functions shared by the three shaders\<close>

text \<open>
  \<^verbatim>\<open>
  float atan2(float y, float x) {
      float s = (abs(x) > abs(y)) ? 1.0 : 0.0;
      return mix(3.14159265358979/2.0 - atan(x,y), atan(y,x), s);
  }
  \<close>
\<close>
definition atan2 :: "real \<Rightarrow> real \<Rightarrow> real" where
  "atan2 y x =
     (let s = (if \<bar>x\<bar> > \<bar>y\<bar> then 1 else 0)
      in mix (3.14159265358979 / 2 - atan x y) (atan y x) s)"

text \<open>
  \<^verbatim>\<open>
  vec3 hsv2rgb(vec3 c) {
      vec4 K = vec4(1.0, 2.0 / 3.0, 1.0 / 3.0, 3.0);
      vec3 p = abs(fract(c.xxx + K.xyz) * 6.0 - K.www);
      return c.z * mix(K.xxx, clamp(p - K.xxx, 0.0, 1.0), c.y);
  }
  \<close>
\<close>
definition hsv2rgb :: "vec3 \<Rightarrow> vec3" where
  "hsv2rgb c = (case c of (cx, cy, cz) \<Rightarrow>
     (let Kx = 1; Ky = 2 / 3; Kz = 1 / 3; Kw = 3;
          p1 = \<bar>fract (cx + Kx) * 6 - Kw\<bar>;
          p2 = \<bar>fract (cx + Ky) * 6 - Kw\<bar>;
          p3 = \<bar>fract (cx + Kz) * 6 - Kw\<bar>
      in (cz * mix Kx (clamp (p1 - Kx) 0 1) cy,
          cz * mix Kx (clamp (p2 - Kx) 0 1) cy,
          cz * mix Kx (clamp (p3 - Kx) 0 1) cy)))"

text \<open>
  The coordinate mapping at the head of every \<open>main\<close>:
  \<^verbatim>\<open>
  vec2 zRange = zoom * vec2(5.00000000, 4.00000000);
  vec2 leftBottom = center - .5 * zRange;
  vec2 z = (leftBottom + uv * zRange);
  \<close>
  (\<open>fullExtent = [5, 4]\<close>, printed by \<open>toFixed(8)\<close>), and the uniform
  \<open>zoom: 2**(-zoom)\<close> that each component passes.
\<close>
definition zRange :: "real \<Rightarrow> vec2" where
  "zRange zoom = (zoom * 5, zoom * 4)"

definition leftBottom :: "vec2 \<Rightarrow> real \<Rightarrow> vec2" where
  "leftBottom center zoom =
     (fst center - 0.5 * fst (zRange zoom), snd center - 0.5 * snd (zRange zoom))"

definition pixel_z :: "vec2 \<Rightarrow> real \<Rightarrow> vec2 \<Rightarrow> vec2" where
  "pixel_z center zoom uv =
     (fst (leftBottom center zoom) + fst uv * fst (zRange zoom),
      snd (leftBottom center zoom) + snd uv * snd (zRange zoom))"

definition zoom_uniform :: "real \<Rightarrow> real" where
  "zoom_uniform zoom = 2 powr (- zoom)"

text \<open>
  The two branches of \<open>z = z^p + c\<close>:
  \<^verbatim>\<open>
  if (p == 2.0) {
      float nextR = dot(z, z*vec2(1.0,-1.0));
      z = c + vec2(nextR, 2.0*z.x*z.y);
  } else {
      float scale = pow(dot(z,z), 0.5*p);
      float theta = p * atan2(z.y, z.x);
      z = c + vec2(scale*cos(theta), scale*sin(theta));
  }
  \<close>
\<close>
definition square_step :: "vec2 \<Rightarrow> vec2 \<Rightarrow> vec2" where
  "square_step c z =
     (let nextR = dot z (fst z * 1, snd z * (- 1))
      in (fst c + nextR, snd c + 2 * fst z * snd z))"

definition polar_step :: "vec2 \<Rightarrow> real \<Rightarrow> vec2 \<Rightarrow> vec2" where
  "polar_step c p z =
     (let scale = pow (dot z z) (0.5 * p);
          theta = p * atan2 (snd z) (fst z)
      in (fst c + scale * cos theta, snd c + scale * sin theta))"

definition power_map :: "vec2 \<Rightarrow> real \<Rightarrow> vec2 \<Rightarrow> vec2" where
  "power_map c p z = (if p = 2 then square_step c z else polar_step c p z)"

text \<open>
  The smooth iteration count computed after the loop by all three shaders:
  \<^verbatim>\<open>
  float fiter = log(dot(z,z));
  fiter = (fiter >= 0.0) ? (float(iter) - log(fiter) / log(2.0)) : (fiter + float(iter));
  \<close>
  \<open>smooth_log_args\<close> lists the arguments of the \<open>log\<close> calls that this code evaluates, in
  order: \<open>dot(z,z)\<close> always, then \<open>fiter\<close> and \<open>2.0\<close> on the first branch of the conditional.
\<close>
definition smooth_iter :: "vec2 \<Rightarrow> int \<Rightarrow> real" where
  "smooth_iter z iter =
     (let fiter = ln (dot z z)
      in if fiter \<ge> 0 then real_of_int iter - ln fiter / ln 2 else fiter + real_of_int iter)"

definition smooth_log_args :: "vec2 \<Rightarrow> real list" where
  "smooth_log_args z =
     (let fiter = ln (dot z z)
      in if fiter \<ge> 0 then [dot z z, fiter, 2] else [dot z z])"

section \<open>The pure-colour shader \<open>juliaFractal\<close>\<close>

text \<open>The local variables \<open>z\<close>, \<open>lastZ\<close> and \<open>iter\<close> of \<open>main\<close>, which the loop updates.\<close>
record jstate =
  s_z :: vec2
  s_lastZ :: vec2
  s_iter :: int

text \<open>
  \<^verbatim>\<open>
  for (int i=0; i<64; ++i) {
      <z = z^p + c>
      if (length(z) > 4.0) { iter = i; break; }
      lastZ = z;
  }
  \<close>
\<close>
function juliaFractal_loop :: "vec2 \<Rightarrow> real \<Rightarrow> int \<Rightarrow> jstate \<Rightarrow> jstate" where
  "juliaFractal_loop c p i st =
     (if i < 64 then
        (let z' = power_map c p (s_z st)
         in if length_v z' > 4 then st\<lparr>s_z := z', s_iter := i\<rparr>
            else juliaFractal_loop c p (i + 1) (st\<lparr>s_z := z', s_lastZ := z'\<rparr>))
      else st)"
  by pat_completeness auto
termination
  by (relation "measure (\<lambda>(c, p, i, st). nat (64 - i))") auto

declare juliaFractal_loop.simps [simp del]

definition juliaFractal_run :: "vec2 \<Rightarrow> real \<Rightarrow> vec2 \<Rightarrow> real \<Rightarrow> vec2 \<Rightarrow> jstate" where
  "juliaFractal_run center zoom c p uv =
     (let z0 = pixel_z center zoom uv
      in juliaFractal_loop c p 0 \<lparr>s_z = z0, s_lastZ = z0, s_iter = 65\<rparr>)"

text \<open>
  \<^verbatim>\<open>
  if (iter == 65) {
      gl_FragColor = vec4(0.0, 0.0, 0.0, 1.0);
  } else {
      <fiter>
      float striping = mod(fiter, 1.0) >= 0.5 ? 1.0 : 0.8;
      gl_FragColor = striping * vec4(hsv2rgb(vec3(fiter/64.0, .8, .8)), 1.0);
  }
  \<close>
\<close>
definition juliaFractal_main :: "vec2 \<Rightarrow> real \<Rightarrow> vec2 \<Rightarrow> real \<Rightarrow> vec2 \<Rightarrow> vec4" where
  "juliaFractal_main center zoom c p uv =
     (let st = juliaFractal_run center zoom c p uv
      in if s_iter st = 65 then (0, 0, 0, 1)
         else
           (let fiter = smooth_iter (s_z st) (s_iter st);
                striping = (if mod_f fiter 1 \<ge> 0.5 then 1 else 0.8)
            in scale4 striping (vec4_of (hsv2rgb (fiter / 64, 0.8, 0.8)) 1)))"

text \<open>The arguments of the \<open>log\<close> calls that one run of \<open>main\<close> evaluates.\<close>
definition juliaFractal_log_args :: "vec2 \<Rightarrow> real \<Rightarrow> vec2 \<Rightarrow> real \<Rightarrow> vec2 \<Rightarrow> real list" where
  "juliaFractal_log_args center zoom c p uv =
     (let st = juliaFractal_run center zoom c p uv
      in if s_iter st = 65 then [] else smooth_log_args (s_z st))"

text \<open>The component \<open>JuliaFractal\<close>: props \<open>center, zoom, c, p\<close>, uniform \<open>zoom: 2**(-zoom)\<close>.\<close>
definition JuliaFractal :: "vec2 \<Rightarrow> real \<Rightarrow> vec2 \<Rightarrow> real \<Rightarrow> vec2 \<Rightarrow> vec4" where
  "JuliaFractal center zoom c p uv = juliaFractal_main center (zoom_uniform zoom) c p uv"

section \<open>The image-sampling shader \<open>imageFractal\<close>\<close>

record istate = jstate +
  s_gl_FragColor :: vec4

text \<open>
  The colour accumulation at the head of the loop body of both image-sampling shaders:
  \<^verbatim>\<open>
  vec2 uvNow = z * vec2(.2, .25) + vec2(.5, .5);
  float mag2i = .35 * dot(z, z);
  mag2i = clamp(1.0 / max(1.0, mag2i), 0.0, 1.0);
  gl_FragColor.rgb += .01*mix(gl_FragColor.rgb, texture2D(image, uvNow).rgb, mag2i);
  \<close>
  Only the \<open>rgb\<close> components are assigned; alpha keeps its value.
\<close>
definition uvNow :: "vec2 \<Rightarrow> vec2" where
  "uvNow z = (fst z * 0.2 + 0.5, snd z * 0.25 + 0.5)"

definition mag2i :: "vec2 \<Rightarrow> real" where
  "mag2i z = (let m = 0.35 * dot z z in clamp (1 / max 1 m) 0 1)"

definition accumulate :: "sampler2D \<Rightarrow> vec2 \<Rightarrow> vec4 \<Rightarrow> vec4" where
  "accumulate img z fc =
     vec4_of (add3 (rgb_of fc) (scale3 0.01 (mix3 (rgb_of fc) (img (uvNow z)) (mag2i z))))
             (alpha_of fc)"

text \<open>
  \<^verbatim>\<open>
  for (int i=0; i<64; ++i) {
      <accumulate>
      <z = z^p + c>
      float magZ = dot(z, z);
      if (magZ > 10.0) { iter = i; break; }
      lastZ = z;
  }
  \<close>
\<close>
function imageFractal_loop :: "vec2 \<Rightarrow> real \<Rightarrow> sampler2D \<Rightarrow> int \<Rightarrow> istate \<Rightarrow> istate" where
  "imageFractal_loop c p img i st =
     (if i < 64 then
        (let fc = accumulate img (s_z st) (s_gl_FragColor st);
             z' = power_map c p (s_z st);
             magZ = dot z' z'
         in if magZ > 10 then st\<lparr>s_z := z', s_iter := i, s_gl_FragColor := fc\<rparr>
            else imageFractal_loop c p img (i + 1)
                   (st\<lparr>s_z := z', s_lastZ := z', s_gl_FragColor := fc\<rparr>))
      else st)"
  by pat_completeness auto
termination
  by (relation "measure (\<lambda>(c, p, img, i, st). nat (64 - i))") auto

declare imageFractal_loop.simps [simp del]

definition imageFractal_run ::
  "vec2 \<Rightarrow> real \<Rightarrow> vec2 \<Rightarrow> real \<Rightarrow> sampler2D \<Rightarrow> vec2 \<Rightarrow> istate" where
  "imageFractal_run center zoom c p img uv =
     (let z0 = pixel_z center zoom uv
      in imageFractal_loop c p img 0
           \<lparr>s_z = z0, s_lastZ = z0, s_iter = 65, s_gl_FragColor = (0, 0, 0, 1)\<rparr>)"

text \<open>
  \<^verbatim>\<open>
  if (iter == 65) {
      gl_FragColor = vec4(0.0, 0.0, 0.0, 1.0);
  } else {
      <fiter>
      float scale = 65.0 / fiter;
      gl_FragColor *= vec4(scale, scale, scale, 1.0);
  }
  \<close>
\<close>
text \<open>
  \<open>65.0 / fiter\<close> with \<open>fiter = 0\<close> is an infinity in GLSL and \<open>0\<close> in HOL; no result below
  depends on the value of \<open>scale\<close>.
\<close>
definition imageFractal_main ::
  "vec2 \<Rightarrow> real \<Rightarrow> vec2 \<Rightarrow> real \<Rightarrow> sampler2D \<Rightarrow> vec2 \<Rightarrow> vec4" where
  "imageFractal_main center zoom c p img uv =
     (let st = imageFractal_run center zoom c p img uv
      in if s_iter st = 65 then (0, 0, 0, 1)
         else
           (let fiter = smooth_iter (s_z st) (s_iter st);
                scale = 65 / fiter
            in mul4 (s_gl_FragColor st) (scale, scale, scale, 1)))"

definition imageFractal_log_args ::
  "vec2 \<Rightarrow> real \<Rightarrow> vec2 \<Rightarrow> real \<Rightarrow> sampler2D \<Rightarrow> vec2 \<Rightarrow> real list" where
  "imageFractal_log_args center zoom c p img uv =
     (let st = imageFractal_run center zoom c p img uv
      in if s_iter st = 65 then [] else smooth_log_args (s_z st))"

text \<open>The component \<open>JuliaImageFractal\<close>.\<close>
definition JuliaImageFractal ::
  "vec2 \<Rightarrow> real \<Rightarrow> vec2 \<Rightarrow> real \<Rightarrow> sampler2D \<Rightarrow> vec2 \<Rightarrow> vec4" where
  "JuliaImageFractal center zoom c p img uv =
     imageFractal_main center (zoom_uniform zoom) c p img uv"

section \<open>The field shader of \<open>JuliaFieldFractal\<close>\<close>

text \<open>
  \<^verbatim>\<open>
  vec3 rgb2hsv(vec3 c) {
      vec4 K = vec4(0.0, -1.0 / 3.0, 2.0 / 3.0, -1.0);
      vec4 p = c.g < c.b ? vec4(c.bg, K.wz) : vec4(c.gb, K.xy);
      vec4 q = c.r < p.x ? vec4(p.xyw, c.r) : vec4(c.r, p.yzx);
      float d = q.x - min(q.w, q.y);
      float e = 1.0e-10;
      return vec3(abs(q.z + (q.w - q.y) / (6.0 * d + e)), d / (q.x + e), q.x);
  }
  \<close>
\<close>
definition rgb2hsv :: "vec3 \<Rightarrow> vec3" where
  "rgb2hsv c = (case c of (cr, cg, cb) \<Rightarrow>
     (let Kx = 0; Ky = - 1 / 3; Kz = 2 / 3; Kw = - 1;
          p = (if cg < cb then (cb, cg, Kw, Kz) else (cg, cb, Kx, Ky))
      in case p of (px, py, pz, pw) \<Rightarrow>
     (let q = (if cr < px then (px, py, pw, cr) else (cr, py, pz, px))
      in case q of (qx, qy, qz, qw) \<Rightarrow>
     (let d = qx - min qw qy;
          e = 1 / 10 ^ 10
      in (\<bar>qz + (qw - qy) / (6 * d + e)\<bar>, d / (qx + e), qx)))))"

text \<open>The uniforms of the shader.\<close>
record field_uniforms =
  u_center :: vec2
  u_zoom :: real
  u_c :: vec2
  u_p0 :: real
  u_q :: real
  u_r :: real
  u_image :: sampler2D

text \<open>
  \<open>fieldExpr\<close> is a GLSL expression, spliced into the loop body as
  \<open>vec3 hsv = rgb2hsv(rgb);  p = q + (r-q)*(<fieldExpr>);\<close>. It is modelled as a function
  of the names in scope at that point: the uniforms, \<open>uv\<close>, the locals of \<open>main\<close> and of
  the loop body, with \<open>p\<close> still equal to \<open>p0\<close>.
\<close>
record field_scope =
  b_uniforms :: field_uniforms
  b_uv :: vec2
  b_zRange :: vec2
  b_leftBottom :: vec2
  b_z :: vec2
  b_z0 :: vec2
  b_lastZ :: vec2
  b_iter :: int
  b_i :: int
  b_uvNow :: vec2
  b_rgb :: vec3
  b_mag2i :: real
  b_gl_FragColor :: vec4
  b_p :: real
  b_hsv :: vec3

type_synonym fieldExpr = "field_scope \<Rightarrow> real"

text \<open>
  The three integer literals that the component splices into the shader source:
  \<^verbatim>\<open>
  int iter = ${(maxIterations || 64) + 1};
  for (int i=0; i<${maxIterations || 64}; ++i) {
  ...
  if (iter == ${maxIterations || 64}) {
  \<close>
  \<open>maxIterations\<close> is an optional number, an integer where the shader compiles (it is
  spliced as an \<open>int\<close> literal); \<open>||\<close> takes its right operand when the left one is
  \<open>undefined\<close> (here \<open>None\<close>) or \<open>0\<close>.
\<close>
definition maxIterations_or_64 :: "int option \<Rightarrow> int" where
  "maxIterations_or_64 maxIterations =
     (case maxIterations of None \<Rightarrow> 64 | Some n \<Rightarrow> if n = 0 then 64 else n)"

record field_kernel =
  k_iter_init :: int
  k_loop_bound :: int
  k_interior_cmp :: int

definition compile_kernel :: "int option \<Rightarrow> field_kernel" where
  "compile_kernel maxIterations =
     \<lparr>k_iter_init = maxIterations_or_64 maxIterations + 1,
      k_loop_bound = maxIterations_or_64 maxIterations,
      k_interior_cmp = maxIterations_or_64 maxIterations\<rparr>"

text \<open>
  \<^verbatim>\<open>
  for (int i=0; i<N; ++i) {
      vec2 uvNow = z * vec2(.2, .25) + vec2(.5, .5);
      vec3 rgb = texture2D(image, uvNow).rgb;
      <accumulate>
      float p = p0;
      <vec3 hsv = rgb2hsv(rgb);  p = q + (r-q)*(fieldExpr);>   (when fieldExpr is given)
      lastZ = z;
      <z = z^p + c>
      float magZ = dot(z, z);
      if (magZ > 10.0) { iter = i; break; }
  }
  \<close>
\<close>
definition field_p ::
  "field_uniforms \<Rightarrow> fieldExpr option \<Rightarrow> vec2 \<Rightarrow> vec2 \<Rightarrow> int \<Rightarrow> istate \<Rightarrow> vec4 \<Rightarrow> real" where
  "field_p u fe uv z0 i st fc =
     (case fe of
        None \<Rightarrow> u_p0 u
      | Some f \<Rightarrow>
          u_q u + (u_r u - u_q u) *
            f \<lparr>b_uniforms = u, b_uv = uv, b_zRange = zRange (u_zoom u),
               b_leftBottom = leftBottom (u_center u) (u_zoom u),
               b_z = s_z st, b_z0 = z0, b_lastZ = s_lastZ st, b_iter = s_iter st, b_i = i,
               b_uvNow = uvNow (s_z st), b_rgb = u_image u (uvNow (s_z st)),
               b_mag2i = mag2i (s_z st), b_gl_FragColor = fc, b_p = u_p0 u,
               b_hsv = rgb2hsv (u_image u (uvNow (s_z st)))\<rparr>)"

function field_loop ::
  "field_kernel \<Rightarrow> field_uniforms \<Rightarrow> fieldExpr option \<Rightarrow> vec2 \<Rightarrow> vec2 \<Rightarrow> int \<Rightarrow> istate \<Rightarrow> istate"
  where
  "field_loop k u fe uv z0 i st =
     (if i < k_loop_bound k then
        (let fc = accumulate (u_image u) (s_z st) (s_gl_FragColor st);
             p = field_p u fe uv z0 i st fc;
             z' = power_map (u_c u) p (s_z st);
             magZ = dot z' z'
         in if magZ > 10
            then st\<lparr>s_z := z', s_lastZ := s_z st, s_iter := i, s_gl_FragColor := fc\<rparr>
            else field_loop k u fe uv z0 (i + 1)
                   (st\<lparr>s_z := z', s_lastZ := s_z st, s_gl_FragColor := fc\<rparr>))
      else st)"
  by pat_completeness auto
termination
  by (relation "measure (\<lambda>(k, u, fe, uv, z0, i, st). nat (k_loop_bound k - i))") auto

declare field_loop.simps [simp del]

definition field_run ::
  "field_kernel \<Rightarrow> field_uniforms \<Rightarrow> fieldExpr option \<Rightarrow> vec2 \<Rightarrow> istate" where
  "field_run k u fe uv =
     (let z0 = pixel_z (u_center u) (u_zoom u) uv
      in field_loop k u fe uv z0 0
           \<lparr>s_z = z0, s_lastZ = z0, s_iter = k_iter_init k, s_gl_FragColor = (0, 0, 0, 1)\<rparr>)"

text \<open>
  \<^verbatim>\<open>
  if (iter == N) {
      // unescaped Julia set members get black
      gl_FragColor = vec4(0.0, 0.0, 0.0, 1.0);
  } else {
      <fiter>                                   (computed, not used)
      float scale = (iter == 0) ? 100.0 : 1.0 / (.01 * float(iter));
      gl_FragColor *= vec4(scale, scale, scale, 1.0);
  }
  \<close>
\<close>
definition field_main ::
  "field_kernel \<Rightarrow> field_uniforms \<Rightarrow> fieldExpr option \<Rightarrow> vec2 \<Rightarrow> vec4" where
  "field_main k u fe uv =
     (let st = field_run k u fe uv
      in if s_iter st = k_interior_cmp k then (0, 0, 0, 1)
         else
           (let fiter = smooth_iter (s_z st) (s_iter st);
                scale = (if s_iter st = 0 then 100 else 1 / (0.01 * real_of_int (s_iter st)))
            in mul4 (s_gl_FragColor st) (scale, scale, scale, 1)))"

definition field_log_args ::
  "field_kernel \<Rightarrow> field_uniforms \<Rightarrow> fieldExpr option \<Rightarrow> vec2 \<Rightarrow> real list" where
  "field_log_args k u fe uv =
     (let st = field_run k u fe uv
      in if s_iter st = k_interior_cmp k then [] else smooth_log_args (s_z st))"

text \<open>
  The component \<open>JuliaFieldFractal\<close>. Its props are
  \<open>center, zoom, c, p, q, r, image, fieldExpr, maxIterations\<close>; a missing or empty
  \<open>fieldExpr\<close> string is \<open>None\<close>. The uniforms are
  \<open>{ center, zoom: 2**(-zoom), c, p0: p, q, r, image }\<close>.
\<close>
record JuliaFieldFractalProps =
  prop_center :: vec2
  prop_zoom :: real
  prop_c :: vec2
  prop_p :: real
  prop_q :: real
  prop_r :: real
  prop_image :: sampler2D
  prop_fieldExpr :: "fieldExpr option"
  prop_maxIterations :: "int option"

definition field_uniforms_of :: "JuliaFieldFractalProps \<Rightarrow> field_uniforms" where
  "field_uniforms_of props =
     \<lparr>u_center = prop_center props, u_zoom = zoom_uniform (prop_zoom props),
      u_c = prop_c props, u_p0 = prop_p props, u_q = prop_q props, u_r = prop_r props,
      u_image = prop_image props\<rparr>"

definition JuliaFieldFractal :: "JuliaFieldFractalProps \<Rightarrow> vec2 \<Rightarrow> vec4" where
  "JuliaFieldFractal props uv =
     field_main (compile_kernel (prop_maxIterations props)) (field_uniforms_of props)
       (prop_fieldExpr props) uv"

definition JuliaFieldFractal_log_args :: "JuliaFieldFractalProps \<Rightarrow> vec2 \<Rightarrow> real list" where
  "JuliaFieldFractal_log_args props uv =
     field_log_args (compile_kernel (prop_maxIterations props)) (field_uniforms_of props)
       (prop_fieldExpr props) uv"

section \<open>The specification's accumulation rule\<close>

text \<open>
  The specification words the colour accumulation of the image-sampling variants as
  \<open>accumColor += 0.01 * (rgb - accumColor) * w\<close>, with \<open>rgb\<close> the sample at
  \<open>uvNow = z * (0.2, 0.25) + (0.5, 0.5)\<close> and \<open>w = clamp(1 / max(1, 0.35 * |z|\<^sup>2), 0, 1)\<close>.
  This definition follows those words, for comparison with \<open>accumulate\<close>, which follows
  the shaders.
\<close>
definition spec_accumulate :: "sampler2D \<Rightarrow> vec2 \<Rightarrow> vec4 \<Rightarrow> vec4" where
  "spec_accumulate img z accumColor =
     (case accumColor of (a1, a2, a3, al) \<Rightarrow>
      case img (fst z * 0.2 + 0.5, snd z * 0.25 + 0.5) of (r1, r2, r3) \<Rightarrow>
        (let w = clamp (1 / max 1 (0.35 * ((fst z)\<^sup>2 + (snd z)\<^sup>2))) 0 1
         in (a1 + 0.01 * (r1 - a1) * w, a2 + 0.01 * (r2 - a2) * w,
             a3 + 0.01 * (r3 - a3) * w, al)))"

section \<open>Test inputs and loop invariants\<close>

text \<open>
  The props of \<open>JuliaFieldFractal\<close> for the origin pixel of the plain quadratic map:
  \<open>center = (0, 0)\<close>, \<open>zoom = 0\<close>, \<open>c = (0, 0)\<close>, \<open>p = 2\<close>, no \<open>fieldExpr\<close>. With
  \<open>uv = (0.5, 0.5)\<close> the pixel is \<open>z0 = (0, 0)\<close>.
\<close>
definition origin_props :: "sampler2D \<Rightarrow> int option \<Rightarrow> JuliaFieldFractalProps" where
  "origin_props img mi =
     \<lparr>prop_center = (0, 0), prop_zoom = 0, prop_c = (0, 0), prop_p = 2, prop_q = 2, prop_r = 2,
      prop_image = img, prop_fieldExpr = None, prop_maxIterations = mi\<rparr>"

text \<open>
  What the loops of \<open>juliaFractal\<close> and \<open>imageFractal\<close> guarantee on exit: \<open>iter\<close> is still
  \<open>65\<close>, or the final \<open>z\<close> passed the escape test.
\<close>
definition escaped_or_not :: "jstate \<Rightarrow> bool" where
  "escaped_or_not st \<longleftrightarrow> s_iter st = 65 \<or> length_v (s_z st) > 4"

definition escaped_or_not_i :: "istate \<Rightarrow> bool" where
  "escaped_or_not_i st \<longleftrightarrow> s_iter st = 65 \<or> dot (s_z st) (s_z st) > 10"

section \<open>The coordinate mapping in 32-bit floating point\<close>

text \<open>
  The coordinate mapping is also given as the shader computes it where \<open>highp float\<close> is
  the IEEE 754 binary32 format: every operation is the exact operation followed by
  rounding to the nearest number with a 24-bit significand, ties to even. \<open>fl32\<close> is that
  rounding, with subnormals below \<open>2^(-126)\<close>; overflow is not modelled. \<open>center\<close> and \<open>uv\<close>
  are taken to be 32-bit floats already, and the uniform \<open>zoom\<close> is the rounding of
  \<open>2**(-zoom)\<close> (a power of two, computed exactly, for an integer \<open>zoom\<close>).
\<close>
definition round_even :: "real \<Rightarrow> int" where
  "round_even x =
     (let f = \<lfloor>x\<rfloor>; d = x - of_int f
      in if d < 1 / 2 then f else if d > 1 / 2 then f + 1 else if even f then f else f + 1)"

definition fl32 :: "real \<Rightarrow> real" where
  "fl32 x =
     (if x = 0 then 0
      else
        (let e = max \<lfloor>log 2 \<bar>x\<bar>\<rfloor> (- 126) - 23
         in of_int (round_even (x / 2 powr of_int e)) * 2 powr of_int e))"

definition zoom_uniform32 :: "real \<Rightarrow> real" where
  "zoom_uniform32 zoom = fl32 (2 powr (- zoom))"

definition zRange32 :: "real \<Rightarrow> vec2" where
  "zRange32 zoom = (fl32 (zoom * 5), fl32 (zoom * 4))"

definition leftBottom32 :: "vec2 \<Rightarrow> real \<Rightarrow> vec2" where
  "leftBottom32 center zoom =
     (fl32 (fst center - fl32 (0.5 * fst (zRange32 zoom))),
      fl32 (snd center - fl32 (0.5 * snd (zRange32 zoom))))"

definition pixel_z32 :: "vec2 \<Rightarrow> real \<Rightarrow> vec2 \<Rightarrow> vec2" where
  "pixel_z32 center zoom uv =
     (fl32 (fst (leftBottom32 center zoom) + fl32 (fst uv * fst (zRange32 zoom))),
      fl32 (snd (leftBottom32 center zoom) + fl32 (snd uv * snd (zRange32 zoom))))"

text \<open>
  The specification's recovery \<open>uv = (z0 - bottomLeft) / extent\<close>, computed in the same
  arithmetic. It is not part of the shaders.
\<close>
definition recover_uv32 :: "vec2 \<Rightarrow> real \<Rightarrow> vec2 \<Rightarrow> vec2" where
  "recover_uv32 center zoom z0 =
     (fl32 (fl32 (fst z0 - fst (leftBottom32 center zoom)) / fst (zRange32 zoom)),
      fl32 (fl32 (snd z0 - snd (leftBottom32 center zoom)) / snd (zRange32 zoom)))"


section \<open>\<open>atan2\<close> with its constant read as \<open>\<pi>\<close>\<close>

text \<open>
  The literal \<open>3.14159265358979\<close> in \<open>atan2\<close> stands for \<open>\<pi>\<close>: the two numbers round to the
  same 32-bit float (\<open>literal_is_float_pi\<close> below). \<open>atan2_pi\<close> and \<open>polar_step_pi\<close> are
  \<open>atan2\<close> and \<open>polar_step\<close> with \<open>\<pi>\<close> written for the literal, and nothing else changed.
\<close>
definition atan2_pi :: "real \<Rightarrow> real \<Rightarrow> real" where
  "atan2_pi y x =
     (let s = (if \<bar>x\<bar> > \<bar>y\<bar> then 1 else 0)
      in mix (pi / 2 - atan x y) (atan y x) s)"

definition polar_step_pi :: "vec2 \<Rightarrow> real \<Rightarrow> vec2 \<Rightarrow> vec2" where
  "polar_step_pi c p z =
     (let scale = pow (dot z z) (0.5 * p);
          theta = p * atan2_pi (snd z) (fst z)
      in (fst c + scale * cos theta, snd c + scale * sin theta))"


section \<open>Coordinate mapping\<close>

text \<open>
  C8, amended. The pixel-to-plane mapping is \<open>z0 = bottomLeft + uv * extent\<close> with
  \<open>extent = 2^(-zoom) * (5, 4)\<close> and \<open>bottomLeft = center - 0.5 * extent\<close>, and over the
  reals, for every \<open>center\<close>, \<open>zoom\<close> and \<open>uv\<close> (in particular every \<open>uv\<close> in the unit
  square), the pixel is recovered exactly as \<open>uv = (z0 - bottomLeft) / extent\<close>,
  componentwise. Nothing is stated of the recovery in 32-bit floating point.
\<close>
theorem pixel_mapping_invertible:
  "zRange (zoom_uniform zoom) = (2 powr (- zoom) * 5, 2 powr (- zoom) * 4)
   \<and> leftBottom center (zoom_uniform zoom) =
       (fst center - 0.5 * fst (zRange (zoom_uniform zoom)),
        snd center - 0.5 * snd (zRange (zoom_uniform zoom)))
   \<and> pixel_z center (zoom_uniform zoom) uv =
       (fst (leftBottom center (zoom_uniform zoom)) + fst uv * fst (zRange (zoom_uniform zoom)),
        snd (leftBottom center (zoom_uniform zoom)) + snd uv * snd (zRange (zoom_uniform zoom)))
   \<and> ((fst (pixel_z center (zoom_uniform zoom) uv) - fst (leftBottom center (zoom_uniform zoom)))
          / fst (zRange (zoom_uniform zoom)),
        (snd (pixel_z center (zoom_uniform zoom) uv) - snd (leftBottom center (zoom_uniform zoom)))
          / snd (zRange (zoom_uniform zoom))) = uv"
  by (simp add: zRange_def leftBottom_def pixel_z_def zoom_uniform_def)

lemma fl32_eval:
  assumes "2 powr of_int k \<le> \<bar>x\<bar>" and "\<bar>x\<bar> < 2 powr of_int (k + 1)" and "- 126 \<le> k"
  shows "fl32 x = of_int (round_even (x / 2 powr of_int (k - 23))) * 2 powr of_int (k - 23)"
proof -
  have "0 < (2 :: real) powr of_int k" by simp
  with assms(1) have pos: "0 < \<bar>x\<bar>" by linarith
  then have "x \<noteq> 0" by simp
  have "\<lfloor>log 2 \<bar>x\<bar>\<rfloor> = k"
    using assms(1,2) pos by (subst floor_log_eq_powr_iff) simp_all
  then show ?thesis using \<open>x \<noteq> 0\<close> assms(3) by (simp add: fl32_def Let_def max_def)
qed

lemma fl32_zero: "fl32 0 = 0" by (simp add: fl32_def)

lemma fl32_two_pow_m30: "fl32 (2 powr (- 30)) = 1 / 2 ^ 30"
  by (subst fl32_eval[where k = "- 30"])
     (simp_all add: round_even_def powr_minus_divide field_simps)

lemma fl32_one: "fl32 1 = 1"
  by (subst fl32_eval[where k = 0]) (simp_all add: round_even_def powr_minus_divide)

lemma zRange32_deep: "zRange32 (1 / 2 ^ 30) = (5 / 2 ^ 30, 4 / 2 ^ 30)"
proof -
  have "fl32 (1 / 2 ^ 30 * 5) = 5 / 2 ^ 30"
    by (subst fl32_eval[where k = "- 28"])
       (simp_all add: round_even_def powr_minus_divide field_simps)
  moreover have "fl32 (1 / 2 ^ 30 * 4) = 4 / 2 ^ 30"
    by (subst fl32_eval[where k = "- 28"])
       (simp_all add: round_even_def powr_minus_divide field_simps)
  ultimately show ?thesis by (simp add: zRange32_def)
qed

lemma half_extent_deep:
  "fl32 (0.5 * (5 / 2 ^ 30)) = 5 / 2 ^ 31" "fl32 (0.5 * (4 / 2 ^ 30)) = 4 / 2 ^ 31"
  by (subst fl32_eval[where k = "- 29"],
      simp_all add: round_even_def powr_minus_divide field_simps)+

lemma absorbed_below: "fl32 (1 - 5 / 2 ^ 31) = 1" "fl32 (1 - 4 / 2 ^ 31) = 1"
  by (subst fl32_eval[where k = "- 1"],
      simp_all add: round_even_def powr_minus_divide field_simps)+

lemma absorbed_above: "fl32 (1 + 5 / 2 ^ 30) = 1" "fl32 (1 + 4 / 2 ^ 30) = 1"
  by (subst fl32_eval[where k = 0],
      simp_all add: round_even_def powr_minus_divide field_simps)+

lemma leftBottom32_deep: "leftBottom32 (1, 1) (1 / 2 ^ 30) = (1, 1)"
  unfolding leftBottom32_def zRange32_deep fst_conv snd_conv half_extent_deep absorbed_below
  by (rule refl)

lemma extent_times_one: "fl32 (5 / 2 ^ 30) = 5 / 2 ^ 30" "fl32 (4 / 2 ^ 30) = 4 / 2 ^ 30"
  by (subst fl32_eval[where k = "- 28"],
      simp_all add: round_even_def powr_minus_divide field_simps)+

lemma mult_zero_one: "(0 :: real) * a = 0" "(1 :: real) * a = a" "a + (0 :: real) = a"
  by simp_all


lemma float32_mapping_shallow:
  "pixel_z32 (0, 0) (zoom_uniform32 0) (1, 1) = (5 / 2, 2)
   \<and> recover_uv32 (0, 0) (zoom_uniform32 0) (pixel_z32 (0, 0) (zoom_uniform32 0) (1, 1)) = (1, 1)"
proof -
  have z: "zoom_uniform32 0 = 1" by (simp add: zoom_uniform32_def fl32_one)
  have e: "fl32 5 = 5" "fl32 4 = 4"
    by (subst fl32_eval[where k = 2], simp_all add: round_even_def powr_minus_divide)+
  have h: "fl32 (5 / 2) = 5 / 2" "fl32 (- (5 / 2)) = - (5 / 2)" "fl32 2 = 2" "fl32 (- 2) = - 2"
    by (subst fl32_eval[where k = 1],
        simp_all add: round_even_def powr_minus_divide field_simps)+
  have r: "zRange32 1 = (5, 4)" by (simp add: zRange32_def e)
  have l: "leftBottom32 (0, 0) 1 = (- (5 / 2), - 2)"
    by (simp add: leftBottom32_def r h)
  have p: "pixel_z32 (0, 0) 1 (1, 1) = (5 / 2, 2)"
    by (simp add: pixel_z32_def l r e h)
  have "recover_uv32 (0, 0) 1 (5 / 2, 2) = (1, 1)"
    by (simp add: recover_uv32_def l r e fl32_one)
  with p show ?thesis by (simp add: z)
qed

text \<open>
  C8, as stated, fails in the implementation's arithmetic. With 32-bit floats,
  \<open>center = (1, 1)\<close> and \<open>zoom = 30\<close>, the extent \<open>(5, 4) * 2^(-30)\<close> is absorbed by the
  roundings: \<open>bottomLeft\<close> is \<open>(1, 1)\<close>, the pixels \<open>uv = (0, 0)\<close> and \<open>uv = (1, 1)\<close> both map to
  \<open>z0 = (1, 1)\<close>, and \<open>(z0 - bottomLeft) / extent\<close> gives \<open>(0, 0)\<close> for the pixel \<open>(1, 1)\<close>. At
  \<open>zoom = 0\<close> the same arithmetic recovers the pixel (\<open>float32_mapping_shallow\<close>).
\<close>
theorem float32_mapping_collapses:
  "zoom_uniform32 30 = 1 / 2 ^ 30
   \<and> zRange32 (zoom_uniform32 30) = (5 / 2 ^ 30, 4 / 2 ^ 30)
   \<and> leftBottom32 (1, 1) (zoom_uniform32 30) = (1, 1)
   \<and> pixel_z32 (1, 1) (zoom_uniform32 30) (0, 0) = (1, 1)
   \<and> pixel_z32 (1, 1) (zoom_uniform32 30) (1, 1) = (1, 1)
   \<and> recover_uv32 (1, 1) (zoom_uniform32 30) (pixel_z32 (1, 1) (zoom_uniform32 30) (1, 1)) = (0, 0)
   \<and> recover_uv32 (1, 1) (zoom_uniform32 30) (pixel_z32 (1, 1) (zoom_uniform32 30) (1, 1))
       \<noteq> (1, 1)"
proof -
  have z: "zoom_uniform32 30 = 1 / 2 ^ 30" by (simp add: zoom_uniform32_def fl32_two_pow_m30)
  have a: "pixel_z32 (1, 1) (1 / 2 ^ 30) (0, 0) = (1, 1)"
    unfolding pixel_z32_def leftBottom32_deep zRange32_deep fst_conv snd_conv mult_zero_one
      fl32_zero fl32_one
    by (rule refl)
  have b: "pixel_z32 (1, 1) (1 / 2 ^ 30) (1, 1) = (1, 1)"
    unfolding pixel_z32_def leftBottom32_deep zRange32_deep fst_conv snd_conv mult_zero_one
      extent_times_one absorbed_above
    by (rule refl)
  have c: "recover_uv32 (1, 1) (1 / 2 ^ 30) (1, 1) = (0, 0)"
    unfolding recover_uv32_def leftBottom32_deep zRange32_deep fst_conv snd_conv
    by (simp add: fl32_zero)
  show ?thesis
    unfolding z b a c leftBottom32_deep zRange32_deep by simp
qed

section \<open>Colour accumulation\<close>

text \<open>
  C3, as the specification states it, fails on the shaders. After one iteration at the
  origin under a white image the accumulated colour is \<open>(0.01, 0.01, 0.01)\<close>; the next
  iteration of the shader gives \<open>0.02\<close> per channel, the specification's rule \<open>0.0199\<close>.
\<close>
theorem accumulate_differs_from_spec:
  "accumulate (\<lambda>_. (1, 1, 1)) (0, 0) (0.01, 0.01, 0.01, 1) = (0.02, 0.02, 0.02, 1)
   \<and> spec_accumulate (\<lambda>_. (1, 1, 1)) (0, 0) (0.01, 0.01, 0.01, 1) = (0.0199, 0.0199, 0.0199, 1)
   \<and> accumulate (\<lambda>_. (1, 1, 1)) (0, 0) (0.01, 0.01, 0.01, 1)
       \<noteq> spec_accumulate (\<lambda>_. (1, 1, 1)) (0, 0) (0.01, 0.01, 0.01, 1)"
  by (simp add: accumulate_def spec_accumulate_def rgb_of_def alpha_of_def vec4_of_def add3_def
      scale3_def mix3_def mix_def mag2i_def uvNow_def clamp_def dot_def)

text \<open>
  C3, amended. In every iteration of the image-sampling shaders the accumulated colour is
  updated by \<open>accumColor += 0.01 * mix(accumColor, rgb, w)\<close>, that is
  \<open>accumColor += 0.01 * (accumColor + (rgb - accumColor) * w)\<close>, with \<open>rgb\<close> the image sample
  at \<open>uvNow = z * (0.2, 0.25) + (0.5, 0.5)\<close> and \<open>w = clamp(1 / max(1, 0.35 * |z|\<^sup>2), 0, 1)\<close>;
  alpha is left as it is. The increment is one hundredth of the blend of the accumulated
  colour with the sample, not of their damped difference.
\<close>
theorem accumulate_is_mix_step:
  "accumulate img z (a1, a2, a3, al) =
     (case img (fst z * 0.2 + 0.5, snd z * 0.25 + 0.5) of (r1, r2, r3) \<Rightarrow>
        (let w = clamp (1 / max 1 (0.35 * ((fst z)\<^sup>2 + (snd z)\<^sup>2))) 0 1
         in (a1 + 0.01 * (a1 + (r1 - a1) * w), a2 + 0.01 * (a2 + (r2 - a2) * w),
             a3 + 0.01 * (a3 + (r3 - a3) * w), al)))"
  by (simp add: accumulate_def rgb_of_def alpha_of_def vec4_of_def add3_def
      scale3_def mix3_def mix_def mag2i_def uvNow_def dot_def power2_eq_square Let_def
      algebra_simps split: prod.splits)

section \<open>The field expression\<close>



section \<open>The orbit of the origin\<close>

lemma power_map_origin: "power_map (0, 0) 2 (0, 0) = (0, 0)"
  by (simp add: power_map_def square_step_def dot_def)

lemma mag2i_origin: "mag2i (0, 0) = 1"
  by (simp add: mag2i_def dot_def clamp_def)

lemma uvNow_origin: "uvNow (0, 0) = (1 / 2, 1 / 2)"
  by (simp add: uvNow_def)

lemma accumulate_origin:
  "img (1 / 2, 1 / 2) = (r1, r2, r3) \<Longrightarrow>
   accumulate img (0, 0) (a1, a2, a3, al) = (a1 + 0.01 * r1, a2 + 0.01 * r2, a3 + 0.01 * r3, al)"
  by (simp add: accumulate_def mag2i_origin uvNow_origin rgb_of_def alpha_of_def vec4_of_def
      add3_def scale3_def mix3_def mix_def)

lemma field_iter_never_bound:
  "s_iter st = k_loop_bound k + 1 \<Longrightarrow> 0 \<le> i \<Longrightarrow>
   s_iter (field_loop k u fe uv z0 i st) \<noteq> k_loop_bound k"
proof (induction k u fe uv z0 i st rule: field_loop.induct)
  case (1 k u fe uv z0 i st)
  show ?case
    apply (subst field_loop.simps)
    using 1 by (auto simp: Let_def)
qed

lemma field_loop_origin_aux:
  "s_z st = (0, 0) \<Longrightarrow> u_c u = (0, 0) \<Longrightarrow> u_p0 u = 2 \<Longrightarrow>
   u_image u (1 / 2, 1 / 2) = (r1, r2, r3) \<Longrightarrow>
   s_gl_FragColor st = (a1, a2, a3, al) \<Longrightarrow> i + int n = k_loop_bound k \<Longrightarrow>
   field_loop k u None uv z0 i st =
     st\<lparr>s_lastZ := (if 0 < n then (0, 0) else s_lastZ st),
        s_gl_FragColor :=
          (a1 + real n * (0.01 * r1), a2 + real n * (0.01 * r2), a3 + real n * (0.01 * r3), al)\<rparr>"
proof (induction n arbitrary: i st a1 a2 a3)
  case 0
  then show ?case
    by (subst field_loop.simps) simp
next
  case (Suc n)
  have acc: "accumulate (u_image u) (0, 0) (a1, a2, a3, al)
             = (a1 + 0.01 * r1, a2 + 0.01 * r2, a3 + 0.01 * r3, al)"
    using Suc.prems(4) by (rule accumulate_origin)
  let ?st' = "st\<lparr>s_z := (0, 0), s_lastZ := (0, 0),
                s_gl_FragColor := (a1 + 0.01 * r1, a2 + 0.01 * r2, a3 + 0.01 * r3, al)\<rparr>"
  have lt: "i < k_loop_bound k" using Suc.prems(6) by simp
  have "field_loop k u None uv z0 i st = field_loop k u None uv z0 (i + 1) ?st'"
    apply (subst field_loop.simps)
    using lt Suc.prems(1,2,3,5) acc
    by (simp add: Let_def field_p_def power_map_origin dot_def)
  also have "\<dots> = ?st'\<lparr>s_lastZ := (if 0 < n then (0, 0) else s_lastZ ?st'),
        s_gl_FragColor :=
          (a1 + 0.01 * r1 + real n * (0.01 * r1), a2 + 0.01 * r2 + real n * (0.01 * r2),
           a3 + 0.01 * r3 + real n * (0.01 * r3), al)\<rparr>"
    apply (rule Suc.IH)
    using Suc.prems by simp_all
  also have "\<dots> = st\<lparr>s_lastZ := (if 0 < Suc n then (0, 0) else s_lastZ st),
        s_gl_FragColor :=
          (a1 + real (Suc n) * (0.01 * r1), a2 + real (Suc n) * (0.01 * r2),
           a3 + real (Suc n) * (0.01 * r3), al)\<rparr>"
    using Suc.prems(1) by (simp add: algebra_simps)
  finally show ?case .
qed

lemma pixel_z_centre: "pixel_z (0, 0) (zoom_uniform 0) (1 / 2, 1 / 2) = (0, 0)"
  by (simp add: pixel_z_def leftBottom_def zRange_def zoom_uniform_def)

lemma field_run_origin:
  assumes "img (1 / 2, 1 / 2) = (r1, r2, r3)" and "0 \<le> maxIterations_or_64 mi"
  shows "field_run (compile_kernel mi) (field_uniforms_of (origin_props img mi)) None (1 / 2, 1 / 2)
     = \<lparr>s_z = (0, 0), s_lastZ = (0, 0), s_iter = maxIterations_or_64 mi + 1,
        s_gl_FragColor = (real_of_int (maxIterations_or_64 mi) * (0.01 * r1),
                          real_of_int (maxIterations_or_64 mi) * (0.01 * r2),
                          real_of_int (maxIterations_or_64 mi) * (0.01 * r3), 1)\<rparr>"
proof -
  let ?N = "maxIterations_or_64 mi"
  let ?u = "field_uniforms_of (origin_props img mi)"
  let ?st = "\<lparr>s_z = (0, 0), s_lastZ = (0, 0), s_iter = ?N + 1, s_gl_FragColor = (0, 0, 0, 1)\<rparr>"
  have "field_loop (compile_kernel mi) ?u None (1 / 2, 1 / 2) (0, 0) 0 ?st =
     ?st\<lparr>s_lastZ := (if 0 < nat ?N then (0, 0) else s_lastZ ?st),
        s_gl_FragColor :=
          (0 + real (nat ?N) * (0.01 * r1), 0 + real (nat ?N) * (0.01 * r2),
           0 + real (nat ?N) * (0.01 * r3), 1)\<rparr>"
    apply (rule field_loop_origin_aux)
    using assms by (simp_all add: field_uniforms_of_def origin_props_def compile_kernel_def)
  then show ?thesis
    using assms(2)
    by (simp add: field_run_def compile_kernel_def field_uniforms_of_def origin_props_def
        pixel_z_centre Let_def)
qed


text \<open>
  C10. When \<open>maxIterations\<close> is omitted, and also when it is \<open>0\<close>, the compiled shader has
  \<open>64\<close> as its loop bound and as the value of the interior comparison after the loop (and
  \<open>65\<close> as the initial \<open>iter\<close>); passing \<open>0\<close> gives the shader, and so the picture, of
  passing \<open>64\<close>. With \<open>maxIterations = 0\<close> the loop runs 64 times where nothing escapes: at
  the origin pixel of \<open>z\<^sup>2\<close> under a white image it adds \<open>0.01\<close> to each channel 64 times.
\<close>
theorem maxIterations_zero_is_64:
  "compile_kernel None = \<lparr>k_iter_init = 65, k_loop_bound = 64, k_interior_cmp = 64\<rparr>
   \<and> compile_kernel (Some 0) = \<lparr>k_iter_init = 65, k_loop_bound = 64, k_interior_cmp = 64\<rparr>
   \<and> compile_kernel (Some 0) = compile_kernel (Some 64)
   \<and> JuliaFieldFractal (props\<lparr>prop_maxIterations := Some 0\<rparr>) uv
       = JuliaFieldFractal (props\<lparr>prop_maxIterations := Some 64\<rparr>) uv
   \<and> field_run (compile_kernel (Some 0))
        (field_uniforms_of (origin_props (\<lambda>_. (1, 1, 1)) (Some 0))) None (1 / 2, 1 / 2)
       = \<lparr>s_z = (0, 0), s_lastZ = (0, 0), s_iter = 65, s_gl_FragColor = (0.64, 0.64, 0.64, 1)\<rparr>"
proof -
  have "field_run (compile_kernel (Some 0))
          (field_uniforms_of (origin_props (\<lambda>_. (1, 1, 1)) (Some 0))) None (1 / 2, 1 / 2)
     = \<lparr>s_z = (0, 0), s_lastZ = (0, 0), s_iter = maxIterations_or_64 (Some 0) + 1,
        s_gl_FragColor = (real_of_int (maxIterations_or_64 (Some 0)) * (0.01 * 1),
                          real_of_int (maxIterations_or_64 (Some 0)) * (0.01 * 1),
                          real_of_int (maxIterations_or_64 (Some 0)) * (0.01 * 1), 1)\<rparr>"
    by (rule field_run_origin) (simp_all add: maxIterations_or_64_def)
  then show ?thesis
    by (simp add: compile_kernel_def maxIterations_or_64_def JuliaFieldFractal_def
        field_uniforms_of_def)
qed

section \<open>Pixels that never escape, and pixels that do\<close>

lemma orbit_origin: "(power_map (0, 0) 2 ^^ n) (0, 0) = (0, 0)"
  by (induction n) (simp_all add: power_map_origin)

lemma juliaFractal_loop_no_escape:
  "i + int n = 64 \<Longrightarrow>
   (\<And>m. m < n \<Longrightarrow> \<not> length_v ((power_map c p ^^ Suc m) (s_z st)) > 4) \<Longrightarrow>
   s_iter (juliaFractal_loop c p i st) = s_iter st"
proof (induction n arbitrary: i st)
  case 0
  then show ?case by (subst juliaFractal_loop.simps) simp
next
  case (Suc n)
  let ?z' = "power_map c p (s_z st)"
  have ne: "\<not> length_v ?z' > 4" using Suc.prems(2)[of 0] by simp
  have "s_iter (juliaFractal_loop c p (i + 1) (st\<lparr>s_z := ?z', s_lastZ := ?z'\<rparr>))
        = s_iter (st\<lparr>s_z := ?z', s_lastZ := ?z'\<rparr>)"
  proof (rule Suc.IH)
    show "i + 1 + int n = 64" using Suc.prems(1) by simp
    fix m assume "m < n"
    then have "\<not> length_v ((power_map c p ^^ Suc (Suc m)) (s_z st)) > 4"
      using Suc.prems(2)[of "Suc m"] by simp
    then show "\<not> length_v ((power_map c p ^^ Suc m) (s_z (st\<lparr>s_z := ?z', s_lastZ := ?z'\<rparr>))) > 4"
      by (simp add: funpow_swap1)
  qed
  then show ?case
    apply (subst juliaFractal_loop.simps)
    using Suc.prems(1) ne by (simp add: Let_def)
qed

lemma imageFractal_loop_no_escape:
  "i + int n = 64 \<Longrightarrow>
   (\<And>m. m < n \<Longrightarrow> \<not> dot ((power_map c p ^^ Suc m) (s_z st)) ((power_map c p ^^ Suc m) (s_z st)) > 10) \<Longrightarrow>
   s_iter (imageFractal_loop c p img i st) = s_iter st"
proof (induction n arbitrary: i st)
  case 0
  then show ?case by (subst imageFractal_loop.simps) simp
next
  case (Suc n)
  let ?z' = "power_map c p (s_z st)"
  let ?st' = "st\<lparr>s_z := ?z', s_lastZ := ?z',
                 s_gl_FragColor := accumulate img (s_z st) (s_gl_FragColor st)\<rparr>"
  have ne: "\<not> dot ?z' ?z' > 10" using Suc.prems(2)[of 0] by simp
  have "s_iter (imageFractal_loop c p img (i + 1) ?st') = s_iter ?st'"
  proof (rule Suc.IH)
    show "i + 1 + int n = 64" using Suc.prems(1) by simp
    fix m assume "m < n"
    then have "\<not> dot ((power_map c p ^^ Suc (Suc m)) (s_z st))
                     ((power_map c p ^^ Suc (Suc m)) (s_z st)) > 10"
      using Suc.prems(2)[of "Suc m"] by simp
    then show "\<not> dot ((power_map c p ^^ Suc m) (s_z ?st')) ((power_map c p ^^ Suc m) (s_z ?st')) > 10"
      by (simp add: funpow_swap1)
  qed
  then show ?case
    apply (subst imageFractal_loop.simps)
    using Suc.prems(1) ne by (simp add: Let_def)
qed

lemma juliaFractal_no_escape_black:
  assumes "\<And>m. m < 64 \<Longrightarrow>
     \<not> length_v ((power_map c p ^^ Suc m) (pixel_z center zoom uv)) > 4"
  shows "juliaFractal_main center zoom c p uv = (0, 0, 0, 1)"
proof -
  have "s_iter (juliaFractal_run center zoom c p uv) = 65"
    unfolding juliaFractal_run_def Let_def
    by (subst juliaFractal_loop_no_escape[where n = 64]) (use assms in simp_all)
  then show ?thesis by (simp add: juliaFractal_main_def)
qed

lemma imageFractal_no_escape_black:
  assumes "\<And>m. m < 64 \<Longrightarrow>
     \<not> dot ((power_map c p ^^ Suc m) (pixel_z center zoom uv))
           ((power_map c p ^^ Suc m) (pixel_z center zoom uv)) > 10"
  shows "imageFractal_main center zoom c p img uv = (0, 0, 0, 1)"
proof -
  have "s_iter (imageFractal_run center zoom c p img uv) = 65"
    unfolding imageFractal_run_def Let_def
    by (subst imageFractal_loop_no_escape[where n = 64]) (use assms in simp_all)
  then show ?thesis by (simp add: imageFractal_main_def)
qed

lemma juliaFractal_loop_escaped:
  "s_iter st = 65 \<Longrightarrow> escaped_or_not (juliaFractal_loop c p i st)"
proof (induction c p i st rule: juliaFractal_loop.induct)
  case (1 c p i st)
  show ?case
    apply (subst juliaFractal_loop.simps)
    using 1 by (auto simp: Let_def escaped_or_not_def)
qed

lemma imageFractal_loop_escaped:
  "s_iter st = 65 \<Longrightarrow> escaped_or_not_i (imageFractal_loop c p img i st)"
proof (induction c p img i st rule: imageFractal_loop.induct)
  case (1 c p img i st)
  show ?case
    apply (subst imageFractal_loop.simps)
    using 1 by (auto simp: Let_def escaped_or_not_i_def)
qed

lemma smooth_log_args_pos:
  assumes "dot z z > 1" and "a \<in> set (smooth_log_args z)"
  shows "0 < a"
proof -
  have "0 < ln (dot z z)" using assms(1) by simp
  then show ?thesis using assms by (auto simp: smooth_log_args_def Let_def split: if_splits)
qed

lemma juliaFractal_log_args_pos:
  assumes "a \<in> set (juliaFractal_log_args center zoom c p uv)"
  shows "0 < a"
proof -
  let ?st = "juliaFractal_run center zoom c p uv"
  from assms have ne: "s_iter ?st \<noteq> 65" and a: "a \<in> set (smooth_log_args (s_z ?st))"
    by (auto simp: juliaFractal_log_args_def Let_def split: if_splits)
  have "escaped_or_not ?st"
    unfolding juliaFractal_run_def Let_def by (rule juliaFractal_loop_escaped) simp
  with ne have "length_v (s_z ?st) > 4" by (simp add: escaped_or_not_def)
  then have big: "sqrt (dot (s_z ?st) (s_z ?st)) > 4" by (simp add: length_v_def)
  have "dot (s_z ?st) (s_z ?st) > 1"
  proof (rule ccontr)
    assume "\<not> dot (s_z ?st) (s_z ?st) > 1"
    then have "sqrt (dot (s_z ?st) (s_z ?st)) \<le> 1" by simp
    with big show False by linarith
  qed
  then show ?thesis using a by (rule smooth_log_args_pos)
qed

lemma imageFractal_log_args_pos:
  assumes "a \<in> set (imageFractal_log_args center zoom c p img uv)"
  shows "0 < a"
proof -
  let ?st = "imageFractal_run center zoom c p img uv"
  from assms have ne: "s_iter ?st \<noteq> 65" and a: "a \<in> set (smooth_log_args (s_z ?st))"
    by (auto simp: imageFractal_log_args_def Let_def split: if_splits)
  have "escaped_or_not_i ?st"
    unfolding imageFractal_run_def Let_def by (rule imageFractal_loop_escaped) simp
  with ne have "dot (s_z ?st) (s_z ?st) > 10" by (simp add: escaped_or_not_i_def)
  then have "dot (s_z ?st) (s_z ?st) > 1" by simp
  then show ?thesis using a by (rule smooth_log_args_pos)
qed

section \<open>Alpha\<close>

lemma alpha_accumulate: "alpha_of (accumulate img z fc) = alpha_of fc"
  by (simp add: accumulate_def alpha_of_def vec4_of_def add3_def scale3_def mix3_def
      split: prod.splits)

lemma alpha_imageFractal_loop:
  "alpha_of (s_gl_FragColor (imageFractal_loop c p img i st)) = alpha_of (s_gl_FragColor st)"
proof (induction c p img i st rule: imageFractal_loop.induct)
  case (1 c p img i st)
  show ?case
    apply (subst imageFractal_loop.simps)
    using 1 by (auto simp: Let_def alpha_accumulate)
qed

lemma alpha_field_loop:
  "alpha_of (s_gl_FragColor (field_loop k u fe uv z0 i st)) = alpha_of (s_gl_FragColor st)"
proof (induction k u fe uv z0 i st rule: field_loop.induct)
  case (1 k u fe uv z0 i st)
  show ?case
    apply (subst field_loop.simps)
    using 1 by (auto simp: Let_def alpha_accumulate)
qed

lemma alpha_mul4: "alpha_of (mul4 v (s, s, s, 1)) = alpha_of v"
  by (simp add: alpha_of_def mul4_def split: prod.splits)

lemma alpha_imageFractal_main: "alpha_of (imageFractal_main center zoom c p img uv) = 1"
proof -
  have "alpha_of (s_gl_FragColor (imageFractal_run center zoom c p img uv)) = 1"
    by (simp add: imageFractal_run_def Let_def alpha_imageFractal_loop) (simp add: alpha_of_def)
  then show ?thesis
    by (simp add: imageFractal_main_def Let_def alpha_mul4) (simp add: alpha_of_def)
qed

lemma alpha_field_main: "alpha_of (field_main k u fe uv) = 1"
proof -
  have "alpha_of (s_gl_FragColor (field_run k u fe uv)) = 1"
    by (simp add: field_run_def Let_def alpha_field_loop) (simp add: alpha_of_def)
  then show ?thesis
    by (simp add: field_main_def Let_def alpha_mul4) (simp add: alpha_of_def)
qed

lemma alpha_juliaFractal_main:
  "alpha_of (juliaFractal_main center zoom c p uv) = 1
   \<or> alpha_of (juliaFractal_main center zoom c p uv) = 0.8"
  by (simp add: juliaFractal_main_def Let_def alpha_of_def scale4_def vec4_of_def
      split: prod.splits)

lemma exp1_ge: "(5 / 2 :: real) \<le> exp 1"
  using exp_lower_Taylor_quadratic[of "1::real"] by simp

lemma ln36_ge3: "3 \<le> ln (36 :: real)"
proof -
  have "exp (3 :: real) = exp 1 ^ 3" using exp_of_nat_mult[of 3 "1::real"] by simp
  also have "\<dots> \<le> 3 ^ 3" by (intro power_mono exp_le) simp
  finally have "exp (3 :: real) \<le> 36" by simp
  then show ?thesis by (simp add: ln_ge_iff)
qed

lemma ln36_le4: "ln (36 :: real) \<le> 4"
proof -
  have "(36 :: real) \<le> (5 / 2) ^ 4" by (simp add: power4_eq_xxxx)
  also have "\<dots> \<le> exp 1 ^ 4" by (intro power_mono exp1_ge) simp
  also have "\<dots> = exp (4 :: real)" using exp_of_nat_mult[of 4 "1::real"] by simp
  finally have "ln (36 :: real) \<le> ln (exp 4)" by (subst ln_le_cancel_iff) simp_all
  then show ?thesis by simp
qed

lemma smooth_iter_6: "- 2 \<le> smooth_iter (6, 0) 0 \<and> smooth_iter (6, 0) 0 < - 3 / 2"
proof -
  let ?L = "ln (36 :: real)"
  have L3: "3 \<le> ?L" by (rule ln36_ge3)
  have L4: "?L \<le> 4" by (rule ln36_le4)
  have ln2: "0 < ln (2 :: real)" by simp
  have "ln ?L \<le> ln 4" using L3 L4 by (subst ln_le_cancel_iff) simp_all
  also have "ln (4 :: real) = 2 * ln 2" using ln_realpow[of 2 2] by simp
  finally have up: "ln ?L / ln 2 \<le> 2" using ln2 by (simp add: field_simps)
  have "(8 :: real) < 3 ^ 2" by simp
  also have "\<dots> \<le> ?L ^ 2" using L3 by (intro power_mono) simp_all
  finally have "ln (8 :: real) < ln (?L ^ 2)" using L3 by (subst ln_less_cancel_iff) simp_all
  moreover have "ln (8 :: real) = 3 * ln 2" using ln_realpow[of 2 3] by simp
  moreover have "ln (?L ^ 2) = 2 * ln ?L" using ln_realpow[of ?L 2] by simp
  ultimately have "3 * ln 2 < 2 * ln ?L" by simp
  then have lo: "3 / 2 < ln ?L / ln 2" using ln2 by (simp add: field_simps)
  have "smooth_iter (6, 0) 0 = - (ln ?L / ln 2)"
    using L3 by (simp add: smooth_iter_def dot_def Let_def)
  then show ?thesis using up lo by simp
qed

lemma jf_run_6: "juliaFractal_run (0, 0) (zoom_uniform 0) (6, 0) 2 (1 / 2, 1 / 2)
   = \<lparr>s_z = (6, 0), s_lastZ = (0, 0), s_iter = 0\<rparr>"
proof -
  have "sqrt 36 = 6" using real_sqrt_abs[of 6] by simp
  then have "length_v (6, 0) > 4" by (simp add: length_v_def dot_def)
  then show ?thesis
    apply (simp add: juliaFractal_run_def pixel_z_centre)
    apply (subst juliaFractal_loop.simps)
    apply (simp add: Let_def power_map_def square_step_def dot_def)
    done
qed

section \<open>The interior test of the three shaders\<close>

text \<open>
  C1 states that a pixel whose iterates never pass the escape test is painted opaque black
  by each of the three shaders, and in the field shader for every \<open>maxIterations\<close>. The
  shaders \<open>juliaFractal\<close> and \<open>imageFractal\<close> do so (\<open>juliaFractal_no_escape_black\<close>,
  \<open>imageFractal_no_escape_black\<close>): they start \<open>iter\<close> at \<open>65\<close> and compare it with \<open>65\<close>.
  The field shader starts \<open>iter\<close> at \<open>N + 1\<close> and compares it with \<open>N\<close>, where
  \<open>N = maxIterations || 64\<close>: whatever the props and the pixel, \<open>iter\<close> differs from \<open>N\<close>
  after the loop, so the branch commented "unescaped Julia set members get black" is never
  taken. At the origin pixel of \<open>z\<^sup>2\<close> under a white image and the default budget the loop
  runs its 64 iterations without an escape, leaves \<open>iter = 65\<close> and the accumulated colour
  \<open>0.64\<close>, and the output is \<open>(64/65, 64/65, 64/65, 1)\<close>, not black.
\<close>
theorem field_interior_test_never_succeeds:
  "s_iter (field_run (compile_kernel mi) u fe uv) \<noteq> k_interior_cmp (compile_kernel mi)
   \<and> field_run (compile_kernel None)
        (field_uniforms_of (origin_props (\<lambda>_. (1, 1, 1)) None)) None (1 / 2, 1 / 2)
       = \<lparr>s_z = (0, 0), s_lastZ = (0, 0), s_iter = 65, s_gl_FragColor = (0.64, 0.64, 0.64, 1)\<rparr>
   \<and> JuliaFieldFractal (origin_props (\<lambda>_. (1, 1, 1)) None) (1 / 2, 1 / 2)
       = (64 / 65, 64 / 65, 64 / 65, 1)"
proof (intro conjI)
  have "s_iter (field_loop (compile_kernel mi) u fe uv (pixel_z (u_center u) (u_zoom u) uv) 0
     \<lparr>s_z = pixel_z (u_center u) (u_zoom u) uv, s_lastZ = pixel_z (u_center u) (u_zoom u) uv,
      s_iter = k_iter_init (compile_kernel mi), s_gl_FragColor = (0, 0, 0, 1)\<rparr>)
    \<noteq> k_loop_bound (compile_kernel mi)"
    by (rule field_iter_never_bound) (simp_all add: compile_kernel_def)
  then show "s_iter (field_run (compile_kernel mi) u fe uv) \<noteq> k_interior_cmp (compile_kernel mi)"
    by (simp add: field_run_def Let_def compile_kernel_def)
next
  have run: "field_run (compile_kernel None)
       (field_uniforms_of (origin_props (\<lambda>_. (1, 1, 1)) None)) None (1 / 2, 1 / 2)
     = \<lparr>s_z = (0, 0), s_lastZ = (0, 0), s_iter = maxIterations_or_64 None + 1,
        s_gl_FragColor = (real_of_int (maxIterations_or_64 None) * (0.01 * 1),
                          real_of_int (maxIterations_or_64 None) * (0.01 * 1),
                          real_of_int (maxIterations_or_64 None) * (0.01 * 1), 1)\<rparr>"
    by (rule field_run_origin) (simp_all add: maxIterations_or_64_def)
  then show "field_run (compile_kernel None)
        (field_uniforms_of (origin_props (\<lambda>_. (1, 1, 1)) None)) None (1 / 2, 1 / 2)
       = \<lparr>s_z = (0, 0), s_lastZ = (0, 0), s_iter = 65, s_gl_FragColor = (0.64, 0.64, 0.64, 1)\<rparr>"
    by (simp add: maxIterations_or_64_def)
  from run show "JuliaFieldFractal (origin_props (\<lambda>_. (1, 1, 1)) None) (1 / 2, 1 / 2)
      = (64 / 65, 64 / 65, 64 / 65, 1)"
    by (simp add: JuliaFieldFractal_def field_main_def origin_props_def compile_kernel_def
        maxIterations_or_64_def mul4_def Let_def)
qed

text \<open>
  C9 states that with \<open>p = 2\<close> and \<open>c = (0, 0)\<close> the orbit of \<open>z0 = (0, 0)\<close> stays at
  \<open>(0, 0)\<close>, never passes the escape test of any variant, and that the pixel is painted
  opaque black. The orbit and the two escape tests are as stated, and \<open>JuliaFractal\<close> and
  \<open>JuliaImageFractal\<close> paint the pixel black. In \<open>JuliaFieldFractal\<close> too the loop ends
  with \<open>z = (0, 0)\<close> and \<open>iter\<close> untouched, but the pixel is painted with \<open>64/65\<close> of the
  image's colour at \<open>(0.5, 0.5)\<close>, which is black only where the image is.
\<close>
theorem origin_orbit_and_colours:
  "(\<forall>n. (power_map (0, 0) 2 ^^ n) (0, 0) = (0, 0))
   \<and> \<not> length_v (0, 0) > 4 \<and> \<not> dot (0, 0) (0, 0) > 10
   \<and> JuliaFractal (0, 0) 0 (0, 0) 2 (1 / 2, 1 / 2) = (0, 0, 0, 1)
   \<and> JuliaImageFractal (0, 0) 0 (0, 0) 2 img (1 / 2, 1 / 2) = (0, 0, 0, 1)
   \<and> s_z (field_run (compile_kernel None) (field_uniforms_of (origin_props img None)) None
            (1 / 2, 1 / 2)) = (0, 0)
   \<and> s_iter (field_run (compile_kernel None) (field_uniforms_of (origin_props img None)) None
            (1 / 2, 1 / 2)) = 65
   \<and> JuliaFieldFractal (origin_props img None) (1 / 2, 1 / 2)
       = vec4_of (scale3 (64 / 65) (img (1 / 2, 1 / 2))) 1
   \<and> JuliaFieldFractal (origin_props (\<lambda>_. (1 / 2, 1 / 4, 1)) None) (1 / 2, 1 / 2)
       \<noteq> (0, 0, 0, 1)"
proof -
  have field: "s_z (field_run (compile_kernel None) (field_uniforms_of (origin_props f None)) None
            (1 / 2, 1 / 2)) = (0, 0)
     \<and> s_iter (field_run (compile_kernel None) (field_uniforms_of (origin_props f None)) None
            (1 / 2, 1 / 2)) = 65
     \<and> JuliaFieldFractal (origin_props f None) (1 / 2, 1 / 2)
       = vec4_of (scale3 (64 / 65) (f (1 / 2, 1 / 2))) 1" for f
  proof -
    obtain r1 r2 r3 where img: "f (1 / 2, 1 / 2) = (r1, r2, r3)"
      by (cases "f (1 / 2, 1 / 2)") auto
    have run: "field_run (compile_kernel None) (field_uniforms_of (origin_props f None)) None
        (1 / 2, 1 / 2)
     = \<lparr>s_z = (0, 0), s_lastZ = (0, 0), s_iter = maxIterations_or_64 None + 1,
        s_gl_FragColor = (real_of_int (maxIterations_or_64 None) * (0.01 * r1),
                          real_of_int (maxIterations_or_64 None) * (0.01 * r2),
                          real_of_int (maxIterations_or_64 None) * (0.01 * r3), 1)\<rparr>"
      using img by (rule field_run_origin) (simp add: maxIterations_or_64_def)
    from run show ?thesis
      by (simp add: JuliaFieldFractal_def field_main_def origin_props_def compile_kernel_def
          maxIterations_or_64_def mul4_def Let_def img vec4_of_def scale3_def)
  qed
  have pure: "JuliaFractal (0, 0) 0 (0, 0) 2 (1 / 2, 1 / 2) = (0, 0, 0, 1)"
    unfolding JuliaFractal_def
    by (rule juliaFractal_no_escape_black)
       (simp only: pixel_z_centre orbit_origin, simp add: length_v_def dot_def)
  have image: "JuliaImageFractal (0, 0) 0 (0, 0) 2 img (1 / 2, 1 / 2) = (0, 0, 0, 1)"
    unfolding JuliaImageFractal_def
    by (rule imageFractal_no_escape_black)
       (simp only: pixel_z_centre orbit_origin, simp add: dot_def)
  show ?thesis
    using pure image field[of img] field[of "\<lambda>_. (1 / 2, 1 / 4, 1)"]
    by (simp add: orbit_origin length_v_def dot_def vec4_of_def scale3_def)
qed

section \<open>Arguments of \<open>log\<close>\<close>

text \<open>
  C5 states that whenever a variant evaluates the smooth-iteration formula, every argument
  of \<open>log\<close> is strictly positive. For \<open>juliaFractal\<close> and \<open>imageFractal\<close> this holds
  (\<open>juliaFractal_log_args_pos\<close>, \<open>imageFractal_log_args_pos\<close>): the formula is reached only
  after an escape, where \<open>dot(z,z) > 1\<close>. The field shader reaches the formula for the
  origin pixel of \<open>z\<^sup>2\<close>, which never escapes, and there the first \<open>log\<close> is taken of
  \<open>dot(z,z) = 0\<close>.
\<close>
theorem field_log_of_zero:
  "JuliaFieldFractal_log_args (origin_props img None) (1 / 2, 1 / 2) \<noteq> []
   \<and> hd (JuliaFieldFractal_log_args (origin_props img None) (1 / 2, 1 / 2)) = 0"
proof -
  obtain r1 r2 r3 where img: "img (1 / 2, 1 / 2) = (r1, r2, r3)"
    by (cases "img (1 / 2, 1 / 2)") auto
  have run: "field_run (compile_kernel None) (field_uniforms_of (origin_props img None)) None
        (1 / 2, 1 / 2)
     = \<lparr>s_z = (0, 0), s_lastZ = (0, 0), s_iter = maxIterations_or_64 None + 1,
        s_gl_FragColor = (real_of_int (maxIterations_or_64 None) * (0.01 * r1),
                          real_of_int (maxIterations_or_64 None) * (0.01 * r2),
                          real_of_int (maxIterations_or_64 None) * (0.01 * r3), 1)\<rparr>"
    using img by (rule field_run_origin) (simp add: maxIterations_or_64_def)
  from run show ?thesis
    by (simp add: JuliaFieldFractal_log_args_def field_log_args_def origin_props_def
        compile_kernel_def maxIterations_or_64_def smooth_log_args_def dot_def Let_def)
qed

section \<open>Alpha of the output\<close>

text \<open>
  C2 states that every produced pixel has alpha exactly \<open>1\<close>, in all three variants. The
  image and field variants keep alpha at \<open>1\<close> on every path. In \<open>juliaFractal\<close> the escaped
  branch multiplies the whole \<open>vec4(rgb, 1.0)\<close> by \<open>striping\<close>, so the alpha of a pixel in a
  dark stripe is \<open>0.8\<close>: for \<open>center = (0, 0)\<close>, \<open>zoom = 0\<close>, \<open>c = (6, 0)\<close>, \<open>p = 2\<close> the centre
  pixel escapes at \<open>i = 0\<close> with \<open>z = (6, 0)\<close>, its smooth count lies in \<open>[-2, -1.5)\<close>, and
  its alpha is \<open>0.8\<close>.
\<close>
theorem juliaFractal_stripe_alpha:
  "alpha_of (JuliaImageFractal center zoom c p img uv) = 1
   \<and> alpha_of (JuliaFieldFractal props uv) = 1
   \<and> JuliaFractal (0, 0) 0 (6, 0) 2 (1 / 2, 1 / 2) \<noteq> (0, 0, 0, 1)
   \<and> alpha_of (JuliaFractal (0, 0) 0 (6, 0) 2 (1 / 2, 1 / 2)) = 0.8"
proof -
  let ?f = "smooth_iter (6, 0) 0"
  have b: "- 2 \<le> ?f" "?f < - 3 / 2" using smooth_iter_6 by simp_all
  then have "\<lfloor>?f\<rfloor> = - 2" by (intro floor_unique) simp_all
  then have "mod_f ?f 1 = ?f + 2" by (simp add: mod_f_def)
  with b have "\<not> mod_f ?f 1 \<ge> 0.5" by simp
  then have a: "alpha_of (JuliaFractal (0, 0) 0 (6, 0) 2 (1 / 2, 1 / 2)) = 0.8"
    by (simp add: JuliaFractal_def juliaFractal_main_def jf_run_6 Let_def alpha_of_def
        scale4_def vec4_of_def split: prod.splits)
  then have "JuliaFractal (0, 0) 0 (6, 0) 2 (1 / 2, 1 / 2) \<noteq> (0, 0, 0, 1)"
    by (auto simp: alpha_of_def)
  with a show ?thesis
    by (simp add: JuliaImageFractal_def JuliaFieldFractal_def alpha_imageFractal_main
        alpha_field_main)
qed

section \<open>The decimal literal for \<open>\<pi>\<close>\<close>

text \<open>
  \<open>atan2\<close> writes \<open>\<pi>\<close> as \<open>3.14159265358979\<close>. Machin's formula and the alternating series
  of \<open>arctan\<close> place \<open>\<pi>\<close> strictly above this decimal, by less than \<open>3.3e-15\<close>.
\<close>

lemma arctan_partial_sums:
  fixes x :: real
  assumes "0 < x" and "x \<le> 1"
  shows "(\<Sum>i<2 * n. (- 1) ^ i * (1 / real (i * 2 + 1) * x ^ (i * 2 + 1))) \<le> arctan x"
    and "arctan x \<le> (\<Sum>i<2 * n + 1. (- 1) ^ i * (1 / real (i * 2 + 1) * x ^ (i * 2 + 1)))"
proof -
  let ?a = "\<lambda>i. 1 / real (i * 2 + 1) * x ^ (i * 2 + 1)"
  have ax: "\<bar>x\<bar> \<le> 1" using assms by simp
  have "0 < ?a 0" using assms by simp
  then have "(\<Sum>i. (- 1) ^ i * ?a i) \<in> {\<Sum>i<2 * n. (- 1) ^ i * ?a i .. \<Sum>i<2 * n + 1. (- 1) ^ i * ?a i}"
    using summable_Leibniz(2)[OF zeroseq_arctan_series[OF ax] monoseq_arctan_series[OF ax]]
    by blast
  then show "(\<Sum>i<2 * n. (- 1) ^ i * ?a i) \<le> arctan x"
    and "arctan x \<le> (\<Sum>i<2 * n + 1. (- 1) ^ i * ?a i)"
    by (simp_all add: arctan_series[OF ax])
qed

lemma pi_gt_literal: "3.14159265358979 < pi"
proof -
  have a: "(\<Sum>i<2 * 6. (- 1) ^ i * (1 / real (i * 2 + 1) * (1 / 5) ^ (i * 2 + 1))) \<le> arctan (1 / 5 :: real)"
    by (rule arctan_partial_sums) simp_all
  have b: "arctan (1 / 239 :: real) \<le> (\<Sum>i<2 * 1 + 1. (- 1) ^ i * (1 / real (i * 2 + 1) * (1 / 239) ^ (i * 2 + 1)))"
    by (rule arctan_partial_sums) simp_all
  have "pi = 16 * arctan (1 / 5) - 4 * arctan (1 / 239)"
    using machin by simp
  with a b have "16 * (\<Sum>i<2 * 6. (- 1) ^ i * (1 / real (i * 2 + 1) * (1 / 5) ^ (i * 2 + 1)))
     - 4 * (\<Sum>i<2 * 1 + 1. (- 1) ^ i * (1 / real (i * 2 + 1) * (1 / 239) ^ (i * 2 + 1))) \<le> pi"
    by linarith
  moreover have "(3.14159265358979 :: real) < 16 * (\<Sum>i<2 * 6. (- 1) ^ i * (1 / real (i * 2 + 1) * (1 / 5) ^ (i * 2 + 1)))
     - 4 * (\<Sum>i<2 * 1 + 1. (- 1) ^ i * (1 / real (i * 2 + 1) * (1 / 239) ^ (i * 2 + 1)))"
    by (simp add: lessThan_nat_numeral lessThan_Suc numeral_eq_Suc)
  ultimately show ?thesis by linarith
qed

lemma pi_lt_literal_plus: "pi < 3.14159265358979 + 33 / 10 ^ 16"
proof -
  have a: "arctan (1 / 5 :: real) \<le> (\<Sum>i<2 * 5 + 1. (- 1) ^ i * (1 / real (i * 2 + 1) * (1 / 5) ^ (i * 2 + 1)))"
    by (rule arctan_partial_sums) simp_all
  have b: "(\<Sum>i<2 * 2. (- 1) ^ i * (1 / real (i * 2 + 1) * (1 / 239) ^ (i * 2 + 1))) \<le> arctan (1 / 239 :: real)"
    by (rule arctan_partial_sums) simp_all
  have "pi = 16 * arctan (1 / 5) - 4 * arctan (1 / 239)"
    using machin by simp
  with a b have "pi \<le> 16 * (\<Sum>i<2 * 5 + 1. (- 1) ^ i * (1 / real (i * 2 + 1) * (1 / 5) ^ (i * 2 + 1)))
     - 4 * (\<Sum>i<2 * 2. (- 1) ^ i * (1 / real (i * 2 + 1) * (1 / 239) ^ (i * 2 + 1)))"
    by linarith
  moreover have "16 * (\<Sum>i<2 * 5 + 1. (- 1) ^ i * (1 / real (i * 2 + 1) * (1 / 5) ^ (i * 2 + 1)))
     - 4 * (\<Sum>i<2 * 2. (- 1) ^ i * (1 / real (i * 2 + 1) * (1 / 239) ^ (i * 2 + 1)))
     < (3.14159265358979 + 33 / 10 ^ 16 :: real)"
    by (simp add: lessThan_nat_numeral lessThan_Suc numeral_eq_Suc)
  ultimately show ?thesis by linarith
qed

section \<open>The built-in \<open>atan(y, x)\<close> and the shaders' \<open>atan2\<close>\<close>

text \<open>
  The model of the two-argument built-in is the principal angle of the vector \<open>(x, y)\<close>
  (\<open>atan_principal\<close>): it lies in \<open>(-\<pi>, \<pi>]\<close> and \<open>(x, y) = r (cos \<theta>, sin \<theta>)\<close>.
\<close>

lemma sqrt_sum_squares_factor:
  fixes x y :: real
  assumes "x \<noteq> 0"
  shows "sqrt (x\<^sup>2 + y\<^sup>2) = \<bar>x\<bar> * sqrt (1 + (y / x)\<^sup>2)"
proof -
  have "x\<^sup>2 + y\<^sup>2 = x\<^sup>2 * (1 + (y / x)\<^sup>2)"
    using assms by (simp add: field_simps power2_eq_square)
  then show ?thesis by (simp add: real_sqrt_mult)
qed

lemma sqrt_one_plus_pos: "0 < sqrt (1 + (t::real)\<^sup>2)"
  by (simp add: add_pos_nonneg)

lemma arctan_polar:
  fixes x y :: real
  assumes "x \<noteq> 0"
  shows "sqrt (x\<^sup>2 + y\<^sup>2) * cos (arctan (y / x)) = \<bar>x\<bar>"
    and "sqrt (x\<^sup>2 + y\<^sup>2) * sin (arctan (y / x)) = \<bar>x\<bar> * (y / x)"
  using assms sqrt_one_plus_pos[of "y / x"]
  by (simp_all add: sqrt_sum_squares_factor cos_arctan sin_arctan)

lemma atan_principal:
  fixes x y :: real
  assumes "(x, y) \<noteq> (0, 0)"
  shows "- pi < atan y x" and "atan y x \<le> pi"
    and "sqrt (x\<^sup>2 + y\<^sup>2) * cos (atan y x) = x"
    and "sqrt (x\<^sup>2 + y\<^sup>2) * sin (atan y x) = y"
proof -
  have lo: "- (pi / 2) < arctan (y / x)" and hi: "arctan (y / x) < pi / 2"
    by (rule arctan_lbound, rule arctan_ubound)
  consider (pos) "0 < x" | (negpos) "x < 0" "0 \<le> y" | (negneg) "x < 0" "y < 0"
    | (up) "x = 0" "0 < y" | (down) "x = 0" "y < 0"
    using assms by (cases "x = 0"; cases "y = 0"; force)
  then have "- pi < atan y x \<and> atan y x \<le> pi
    \<and> sqrt (x\<^sup>2 + y\<^sup>2) * cos (atan y x) = x \<and> sqrt (x\<^sup>2 + y\<^sup>2) * sin (atan y x) = y"
  proof cases
    case pos
    then show ?thesis
      using lo hi arctan_polar[of x y] pi_ge_two by (simp add: atan_def)
  next
    case negpos
    then have "y / x \<le> 0" by (simp add: divide_nonneg_neg)
    then have "arctan (y / x) \<le> 0" by simp
    then show ?thesis
      using negpos lo arctan_polar[of x y] pi_ge_two by (simp add: atan_def)
  next
    case negneg
    then have "0 < y / x" by (simp add: divide_neg_neg)
    then have "0 < arctan (y / x)" by simp
    then show ?thesis
      using negneg hi arctan_polar[of x y] pi_ge_two by (simp add: atan_def)
  next
    case up
    then show ?thesis using pi_ge_two by (simp add: atan_def)
  next
    case down
    then show ?thesis using pi_ge_two by (simp add: atan_def)
  qed
  then show "- pi < atan y x" and "atan y x \<le> pi"
    and "sqrt (x\<^sup>2 + y\<^sup>2) * cos (atan y x) = x"
    and "sqrt (x\<^sup>2 + y\<^sup>2) * sin (atan y x) = y"
    by simp_all
qed


lemma atan2_near: "\<bar>x\<bar> > \<bar>y\<bar> \<Longrightarrow> atan2 y x = atan y x"
  by (simp add: atan2_def mix_def)

lemma atan2_far: "\<not> \<bar>x\<bar> > \<bar>y\<bar> \<Longrightarrow> atan2 y x = 3.14159265358979 / 2 - atan x y"
  by (simp add: atan2_def mix_def)

lemma literal_error: "- (33 / 10 ^ 16) < 3.14159265358979 - pi" "3.14159265358979 - pi < 0"
  using pi_gt_literal pi_lt_literal_plus by simp_all

lemma atan_swapped_range:
  fixes x y :: real
  assumes "\<bar>x\<bar> \<le> \<bar>y\<bar>" and "(x, y) \<noteq> (0, 0)"
  shows "if x < 0 \<and> y < 0 then - pi < atan x y \<and> atan x y < - (pi / 2)
         else - (pi / 2) < atan x y \<and> atan x y \<le> pi"
proof -
  have lo: "- (pi / 2) < arctan (x / y)" and hi: "arctan (x / y) < pi / 2"
    by (rule arctan_lbound, rule arctan_ubound)
  from assms have y0: "y \<noteq> 0" by auto
  consider (pos) "0 < y" | (negpos) "y < 0" "0 \<le> x" | (negneg) "y < 0" "x < 0"
    using y0 by force
  then show ?thesis
  proof cases
    case pos
    then show ?thesis using lo hi pi_ge_two by (simp add: atan_def)
  next
    case negpos
    then have "x / y \<le> 0" by (simp add: divide_nonneg_neg)
    then have "arctan (x / y) \<le> 0" by simp
    then show ?thesis using negpos lo pi_ge_two by (simp add: atan_def)
  next
    case negneg
    then have "0 < x / y" by (simp add: divide_neg_neg)
    then have "0 < arctan (x / y)" by simp
    then show ?thesis using negneg hi pi_ge_two by (simp add: atan_def)
  qed
qed

lemma atan2_far_angle:
  fixes x y :: real
  assumes far: "\<not> \<bar>x\<bar> > \<bar>y\<bar>" and nz: "(x, y) \<noteq> (0, 0)"
  defines "k \<equiv> (if x < 0 \<and> y < 0 then 1 else 0 :: real)"
  defines "\<theta> \<equiv> atan2 y x - (3.14159265358979 / 2 - pi / 2) - 2 * pi * k"
  shows "- pi < \<theta>" and "\<theta> \<le> pi"
    and "sqrt (x\<^sup>2 + y\<^sup>2) * cos \<theta> = x" and "sqrt (x\<^sup>2 + y\<^sup>2) * sin \<theta> = y"
proof -
  from nz have sw: "(y, x) \<noteq> (0, 0)" by auto
  have r: "sqrt (x\<^sup>2 + y\<^sup>2) = sqrt (y\<^sup>2 + x\<^sup>2)" by (simp add: add.commute)
  have cs: "sqrt (x\<^sup>2 + y\<^sup>2) * cos (atan x y) = y" "sqrt (x\<^sup>2 + y\<^sup>2) * sin (atan x y) = x"
    using atan_principal(3,4)[OF sw] by (simp_all add: r)
  have rng: "if x < 0 \<and> y < 0 then - pi < atan x y \<and> atan x y < - (pi / 2)
         else - (pi / 2) < atan x y \<and> atan x y \<le> pi"
    using far nz by (intro atan_swapped_range) simp_all
  have th: "\<theta> = pi / 2 - atan x y - 2 * pi * k"
    using far by (simp add: \<theta>_def atan2_far)
  have c1: "cos (pi / 2 - atan x y) = sin (atan x y)" by (simp add: cos_diff)
  have s1: "sin (pi / 2 - atan x y) = cos (atan x y)" by (simp add: sin_diff)
  have per: "cos \<theta> = cos (pi / 2 - atan x y) \<and> sin \<theta> = sin (pi / 2 - atan x y)"
  proof (cases "x < 0 \<and> y < 0")
    case True
    then have "\<theta> + 2 * pi = pi / 2 - atan x y" by (simp add: th k_def)
    then show ?thesis using cos_periodic[of \<theta>] sin_periodic[of \<theta>] by simp
  next
    case False
    then have "\<theta> = pi / 2 - atan x y" by (simp add: th k_def)
    then show ?thesis by simp
  qed
  show "sqrt (x\<^sup>2 + y\<^sup>2) * cos \<theta> = x" using per c1 cs by simp
  show "sqrt (x\<^sup>2 + y\<^sup>2) * sin \<theta> = y" using per s1 cs by simp
  show "- pi < \<theta>" using rng pi_ge_two by (auto simp: th k_def split: if_splits)
  show "\<theta> \<le> pi" using rng pi_ge_two by (auto simp: th k_def split: if_splits)
qed


lemma atan2_angle_aux:
  assumes "(x, y) \<noteq> (0, 0)"
  shows "let \<delta> = (if \<bar>x\<bar> > \<bar>y\<bar> then 0 else 3.14159265358979 / 2 - pi / 2);
             k = (if \<bar>x\<bar> \<le> \<bar>y\<bar> \<and> x < 0 \<and> y < 0 then 1 else 0);
             \<theta> = atan2 y x - \<delta> - 2 * pi * k;
             r = sqrt (x\<^sup>2 + y\<^sup>2)
         in - pi < \<theta> \<and> \<theta> \<le> pi \<and> r * cos \<theta> = x \<and> r * sin \<theta> = y"
proof (cases "\<bar>x\<bar> > \<bar>y\<bar>")
  case True
  then show ?thesis
    using atan_principal[OF assms] by (simp add: atan2_near)
next
  case False
  then have k: "(if \<bar>x\<bar> \<le> \<bar>y\<bar> \<and> x < 0 \<and> y < 0 then 1 else 0 :: real)
                = (if x < 0 \<and> y < 0 then 1 else 0)"
    by simp
  show ?thesis
    unfolding Let_def k if_not_P[OF False]
    using atan2_far_angle[OF False assms] by blast
qed

text \<open>
  C4, as stated, fails on the code: for \<open>(x, y) = (-1, -1)\<close> the selector is \<open>0\<close>, the
  result is \<open>3.14159265358979/2 - atan(-1, -1) = 3.14159265358979/2 + 3\<pi>/4\<close>, which is
  larger than \<open>\<pi>\<close>; the principal angle of \<open>(-1, -1)\<close> is \<open>-3\<pi>/4\<close>.
\<close>
theorem atan2_not_principal:
  "\<not> (- pi < atan2 (- 1) (- 1) \<and> atan2 (- 1) (- 1) \<le> pi)"
proof -
  have "atan2 (- 1) (- 1) = 3.14159265358979 / 2 + 3 * pi / 4"
    by (simp add: atan2_def mix_def atan_def arctan_one)
  then show ?thesis using pi_less_4 by simp
qed

text \<open>
  C4, amended. For every \<open>(x, y) \<noteq> (0, 0)\<close>, \<open>atan2(y, x)\<close> (the selection, by
  \<open>|x| > |y|\<close>, between \<open>atan(y, x)\<close> and \<open>3.14159265358979/2 - atan(x, y)\<close>, both with the
  two-argument built-in) is the principal angle \<open>\<theta>\<close> of \<open>(x, y)\<close> (\<open>\<theta>\<close> in \<open>(-\<pi>, \<pi>]\<close>,
  \<open>cos \<theta>\<close> proportional to \<open>x\<close>, \<open>sin \<theta>\<close> to \<open>y\<close>) when \<open>|x| > |y|\<close>; when
  \<open>|x| \<le> |y|\<close> it is \<open>\<theta> + \<delta>\<close>, and \<open>\<theta> + \<delta> + 2\<pi>\<close> if moreover \<open>x < 0\<close> and \<open>y < 0\<close>, where
  \<open>\<delta> = 3.14159265358979/2 - \<pi>/2\<close> is the error of the decimal literal,
  \<open>-1.65e-15 < \<delta> < 0\<close>. The result is quadrant-correct up to \<open>\<delta>\<close> and modulo \<open>2\<pi>\<close>; its
  range is not \<open>(-\<pi>, \<pi>]\<close>.
\<close>
theorem atan2_angle:
  assumes "(x, y) \<noteq> (0, 0)"
  shows "(let \<delta> = (if \<bar>x\<bar> > \<bar>y\<bar> then 0 else 3.14159265358979 / 2 - pi / 2);
              k = (if \<bar>x\<bar> \<le> \<bar>y\<bar> \<and> x < 0 \<and> y < 0 then 1 else 0);
              \<theta> = atan2 y x - \<delta> - 2 * pi * k;
              r = sqrt (x\<^sup>2 + y\<^sup>2)
          in - pi < \<theta> \<and> \<theta> \<le> pi \<and> r * cos \<theta> = x \<and> r * sin \<theta> = y)
         \<and> - (33 / (2 * 10 ^ 16)) < 3.14159265358979 / 2 - pi / 2
         \<and> 3.14159265358979 / 2 - pi / 2 < 0"
proof -
  have "- (33 / (2 * 10 ^ 16)) < 3.14159265358979 / 2 - pi / 2"
    and "3.14159265358979 / 2 - pi / 2 < 0"
    using literal_error by simp_all
  with atan2_angle_aux[OF assms] show ?thesis by blast
qed

theorem atan2_angle_witness:
  "((- 1 :: real), (- 1 :: real)) \<noteq> (0, 0)
   \<and> (let \<theta> = atan2 (- 1) (- 1) - (3.14159265358979 / 2 - pi / 2) - 2 * pi;
           r = sqrt ((- 1)\<^sup>2 + (- 1)\<^sup>2)
       in - pi < \<theta> \<and> \<theta> \<le> pi \<and> r * cos \<theta> = - 1 \<and> r * sin \<theta> = - 1)"
  using atan2_angle[of "- 1" "- 1"] by (simp add: Let_def)

section \<open>The fast path and the polar path at \<open>p = 2\<close>\<close>

lemma double_angle_square:
  fixes x y r t :: real
  assumes "r * cos t = x" and "r * sin t = y"
  shows "r\<^sup>2 * cos (2 * t) = x\<^sup>2 - y\<^sup>2" and "r\<^sup>2 * sin (2 * t) = 2 * x * y"
proof -
  have "r\<^sup>2 * cos (2 * t) = (r * cos t)\<^sup>2 - (r * sin t)\<^sup>2"
    by (subst cos_double) (simp add: power_mult_distrib right_diff_distrib)
  then show "r\<^sup>2 * cos (2 * t) = x\<^sup>2 - y\<^sup>2" using assms by simp
  have "r\<^sup>2 * sin (2 * t) = 2 * (r * cos t) * (r * sin t)"
    by (subst sin_double) (simp add: power2_eq_square)
  then show "r\<^sup>2 * sin (2 * t) = 2 * x * y" using assms by simp
qed

lemma cos_sin_4pi: "cos (a + 4 * pi) = cos a" "sin (a + 4 * pi) = sin a"
proof -
  have e: "a + 4 * pi = a + 2 * pi + 2 * pi" by simp
  show "cos (a + 4 * pi) = cos a" unfolding e by (simp only: cos_periodic)
  show "sin (a + 4 * pi) = sin a" unfolding e by (simp only: sin_periodic)
qed

lemma square_step_eq:
  "square_step c z = (fst c + ((fst z)\<^sup>2 - (snd z)\<^sup>2), snd c + 2 * fst z * snd z)"
  by (simp add: square_step_def dot_def power2_eq_square)

lemma polar_step_2:
  "polar_step c 2 z =
     (fst c + dot z z * cos (2 * atan2 (snd z) (fst z)),
      snd c + dot z z * sin (2 * atan2 (snd z) (fst z)))"
proof -
  have "0 \<le> dot z z" by (simp add: dot_def)
  then show ?thesis by (simp add: polar_step_def pow_def Let_def)
qed

lemma polar_step_2_rotated:
  fixes z :: vec2
  defines "x \<equiv> fst z" and "y \<equiv> snd z"
  assumes nz: "z \<noteq> (0, 0)"
  defines "\<epsilon> \<equiv> (if \<bar>x\<bar> > \<bar>y\<bar> then 0 else 3.14159265358979 - pi)"
  shows "polar_step c 2 z =
     (fst c + ((x\<^sup>2 - y\<^sup>2) * cos \<epsilon> - 2 * x * y * sin \<epsilon>),
      snd c + ((x\<^sup>2 - y\<^sup>2) * sin \<epsilon> + 2 * x * y * cos \<epsilon>))"
proof -
  define \<delta> :: real where "\<delta> = (if \<bar>x\<bar> > \<bar>y\<bar> then 0 else 3.14159265358979 / 2 - pi / 2)"
  define k :: real where "k = (if \<bar>x\<bar> \<le> \<bar>y\<bar> \<and> x < 0 \<and> y < 0 then 1 else 0)"
  define \<theta> where "\<theta> = atan2 y x - \<delta> - 2 * pi * k"
  define r where "r = sqrt (x\<^sup>2 + y\<^sup>2)"
  from nz have "(x, y) \<noteq> (0, 0)" by (simp add: x_def y_def prod_eq_iff)
  from atan2_angle_aux[OF this] have cs: "r * cos \<theta> = x" "r * sin \<theta> = y"
    by (simp_all add: Let_def \<delta>_def k_def \<theta>_def r_def)
  have r2: "r\<^sup>2 = dot z z" by (simp add: r_def dot_def x_def y_def power2_eq_square)
  have eps: "\<epsilon> = 2 * \<delta>" by (simp add: \<epsilon>_def \<delta>_def)
  have "2 * atan2 y x = 2 * \<theta> + \<epsilon> + 4 * pi * k" by (simp add: \<theta>_def eps)
  moreover have "cos (2 * \<theta> + \<epsilon> + 4 * pi * k) = cos (2 * \<theta> + \<epsilon>)
                 \<and> sin (2 * \<theta> + \<epsilon> + 4 * pi * k) = sin (2 * \<theta> + \<epsilon>)"
  proof (cases "k = 0")
    case True
    then show ?thesis by simp
  next
    case False
    then have k1: "k = 1" by (simp add: k_def split: if_splits)
    have "2 * \<theta> + \<epsilon> + 4 * pi * k = (2 * \<theta> + \<epsilon>) + 4 * pi"
      by (simp add: k1)
    then show ?thesis by (simp only: cos_sin_4pi)
  qed
  ultimately have c: "cos (2 * atan2 y x) = cos (2 * \<theta> + \<epsilon>)"
    and s: "sin (2 * atan2 y x) = sin (2 * \<theta> + \<epsilon>)"
    by simp_all
  have d: "r\<^sup>2 * cos (2 * \<theta>) = x\<^sup>2 - y\<^sup>2" "r\<^sup>2 * sin (2 * \<theta>) = 2 * x * y"
    using double_angle_square[OF cs] by simp_all
  have "dot z z * cos (2 * atan2 y x) = (r\<^sup>2 * cos (2 * \<theta>)) * cos \<epsilon> - (r\<^sup>2 * sin (2 * \<theta>)) * sin \<epsilon>"
    by (simp add: c cos_add r2 algebra_simps)
  moreover have "dot z z * sin (2 * atan2 y x) = (r\<^sup>2 * cos (2 * \<theta>)) * sin \<epsilon> + (r\<^sup>2 * sin (2 * \<theta>)) * cos \<epsilon>"
    by (simp add: s sin_add r2 algebra_simps)
  ultimately show ?thesis
    unfolding polar_step_2 d x_def[symmetric] y_def[symmetric] by simp
qed


lemma polar_step_2_exact:
  assumes "\<bar>fst z\<bar> > \<bar>snd z\<bar> \<or> z = (0, 0)"
  shows "polar_step c 2 z = square_step c z"
proof (cases "z = (0, 0)")
  case True
  then show ?thesis by (simp add: polar_step_2 square_step_eq dot_def)
next
  case False
  with assms have "\<bar>fst z\<bar> > \<bar>snd z\<bar>" by simp
  then show ?thesis
    using polar_step_2_rotated[OF False, of c] by (simp add: square_step_eq)
qed

lemma round_even_up:
  assumes "of_int n + 1 / 2 < x" and "x < of_int n + 1"
  shows "round_even x = n + 1"
proof -
  have "\<lfloor>x\<rfloor> = n" by (rule floor_unique) (use assms in linarith)+
  then show ?thesis using assms by (simp add: round_even_def Let_def)
qed

lemma literal_is_float_pi:
  "fl32 3.14159265358979 = 13176795 / 2 ^ 22" "fl32 pi = 13176795 / 2 ^ 22"
proof -
  show "fl32 3.14159265358979 = 13176795 / 2 ^ 22"
    by (subst fl32_eval[where k = 1])
       (simp_all add: round_even_def powr_minus_divide field_simps)
  have "round_even (pi / 2 powr of_int (1 - 23)) = 13176794 + 1"
    by (rule round_even_up)
       (use pi_gt_literal pi_lt_literal_plus in \<open>simp_all add: powr_minus_divide\<close>)
  moreover have "fl32 pi = of_int (round_even (pi / 2 powr of_int (1 - 23))) * 2 powr of_int (1 - 23)"
    by (rule fl32_eval) (use pi_ge_two pi_less_4 in simp_all)
  ultimately show "fl32 pi = 13176795 / 2 ^ 22"
    by (simp add: powr_minus_divide)
qed

lemma atan2_pi_angle:
  assumes "(x, y) \<noteq> (0, 0)"
  shows "\<exists>k::real. (k = 0 \<or> k = 1)
           \<and> sqrt (x\<^sup>2 + y\<^sup>2) * cos (atan2_pi y x - 2 * pi * k) = x
           \<and> sqrt (x\<^sup>2 + y\<^sup>2) * sin (atan2_pi y x - 2 * pi * k) = y"
proof -
  have e: "atan2_pi y x
      = atan2 y x - (if \<bar>x\<bar> > \<bar>y\<bar> then 0 else 3.14159265358979 / 2 - pi / 2)"
    by (simp add: atan2_pi_def atan2_def mix_def)
  show ?thesis
    using atan2_angle_aux[OF assms] unfolding Let_def e[symmetric]
    by (intro exI[of _ "if \<bar>x\<bar> \<le> \<bar>y\<bar> \<and> x < 0 \<and> y < 0 then 1 else 0"]) simp
qed

lemma polar_step_pi_2:
  "polar_step_pi c 2 z =
     (fst c + dot z z * cos (2 * atan2_pi (snd z) (fst z)),
      snd c + dot z z * sin (2 * atan2_pi (snd z) (fst z)))"
proof -
  have "0 \<le> dot z z" by (simp add: dot_def)
  then show ?thesis by (simp add: polar_step_pi_def pow_def Let_def)
qed

lemma polar_step_pi_is_square: "polar_step_pi c 2 z = square_step c z"
proof (cases "z = (0, 0)")
  case True
  then show ?thesis by (simp add: polar_step_pi_2 square_step_eq dot_def)
next
  case False
  define x y where "x = fst z" and "y = snd z"
  define r where "r = sqrt (x\<^sup>2 + y\<^sup>2)"
  from False have "(x, y) \<noteq> (0, 0)" by (simp add: x_def y_def prod_eq_iff)
  from atan2_pi_angle[OF this] obtain k :: real where k: "k = 0 \<or> k = 1"
    and cs: "r * cos (atan2_pi y x - 2 * pi * k) = x" "r * sin (atan2_pi y x - 2 * pi * k) = y"
    unfolding r_def by blast
  define \<theta> where "\<theta> = atan2_pi y x - 2 * pi * k"
  have r2: "r\<^sup>2 = dot z z" by (simp add: r_def dot_def x_def y_def power2_eq_square)
  have d: "r\<^sup>2 * cos (2 * \<theta>) = x\<^sup>2 - y\<^sup>2" "r\<^sup>2 * sin (2 * \<theta>) = 2 * x * y"
    using double_angle_square[of r \<theta> x y] cs by (simp_all add: \<theta>_def)
  have "cos (2 * atan2_pi y x) = cos (2 * \<theta>) \<and> sin (2 * atan2_pi y x) = sin (2 * \<theta>)"
  proof (cases "k = 0")
    case True
    then show ?thesis by (simp add: \<theta>_def)
  next
    case False
    with k have "2 * atan2_pi y x = 2 * \<theta> + 4 * pi" by (simp add: \<theta>_def)
    then show ?thesis by (simp only: cos_sin_4pi)
  qed
  then have "dot z z * cos (2 * atan2_pi y x) = x\<^sup>2 - y\<^sup>2"
    and "dot z z * sin (2 * atan2_pi y x) = 2 * x * y"
    using d r2 by simp_all
  then show ?thesis
    unfolding polar_step_pi_2 square_step_eq x_def[symmetric] y_def[symmetric] by simp
qed

lemma polar_step_2_literal:
  "polar_step c 2 z =
     (let \<epsilon> = (if \<bar>fst z\<bar> > \<bar>snd z\<bar> \<or> z = (0, 0) then 0 else 3.14159265358979 - pi);
          sx = (fst z)\<^sup>2 - (snd z)\<^sup>2;
          sy = 2 * fst z * snd z
      in (fst c + (sx * cos \<epsilon> - sy * sin \<epsilon>), snd c + (sx * sin \<epsilon> + sy * cos \<epsilon>)))"
proof (cases "z = (0, 0)")
  case True
  then show ?thesis by (simp add: polar_step_2 dot_def)
next
  case False
  then show ?thesis
    using polar_step_2_rotated[OF False, of c] by (simp add: Let_def)
qed

text \<open>
  C6. For every \<open>z\<close> and \<open>c\<close>, one application of the \<open>p = 2.0\<close> fast path,
  \<open>c + (z.re\<^sup>2 - z.im\<^sup>2, 2 z.re z.im)\<close>, equals one application of the polar-form path at
  \<open>p = 2\<close>, exactly over the reals, the constant of \<open>atan2\<close> being \<open>\<pi>\<close>. The literal that the
  shader writes for \<open>\<pi>\<close> is the same 32-bit float as \<open>\<pi>\<close>; taken as the decimal it spells,
  it leaves the two paths equal where \<open>|z.re| > |z.im|\<close> and at \<open>z = 0\<close>, and elsewhere turns
  the polar result about \<open>c\<close> by \<open>3.14159265358979 - \<pi>\<close>, less than \<open>3.3e-15\<close> in size: within
  floating-point tolerance.
\<close>
theorem fast_path_is_polar_path_at_2:
  "polar_step_pi c 2 z = square_step c z
   \<and> square_step c z = (fst c + ((fst z)\<^sup>2 - (snd z)\<^sup>2), snd c + 2 * fst z * snd z)
   \<and> fl32 3.14159265358979 = fl32 pi
   \<and> polar_step c 2 z =
       (let \<epsilon> = (if \<bar>fst z\<bar> > \<bar>snd z\<bar> \<or> z = (0, 0) then 0 else 3.14159265358979 - pi);
            sx = (fst z)\<^sup>2 - (snd z)\<^sup>2;
            sy = 2 * fst z * snd z
        in (fst c + (sx * cos \<epsilon> - sy * sin \<epsilon>), snd c + (sx * sin \<epsilon> + sy * cos \<epsilon>)))
   \<and> - (33 / 10 ^ 16) < 3.14159265358979 - pi \<and> 3.14159265358979 - pi < 0"
  using polar_step_pi_is_square[of c z] square_step_eq[of c z] polar_step_2_literal[of c z]
    literal_error literal_is_float_pi
  by (intro conjI) simp_all

end
